theory Spec2Isabelle
  imports Complex_Main
begin

section \<open>JavaScript numbers\<close>

text \<open>
  The simulator computes with JavaScript numbers. A number is modelled as a real, or one
  of the three non-finite values that a division can produce. Arithmetic on finite values
  is exact: rounding to binary64, overflow to an infinity, underflow and the sign of zero
  are not part of the model, so a finite result is never replaced by an infinity and
  \<open>x / 0\<close> takes its sign from \<open>x\<close> alone. The theorems below that speak of finite or
  non-finite results are stated for inputs of ordinary magnitude, where binary64 neither
  overflows nor underflows.
\<close>

datatype jsnum = is_Num: Num (num_of: real) | PosInf | NegInf | NaN

definition signed_inf :: "real \<Rightarrow> jsnum" where
  "signed_inf s = (if s = 0 then NaN else if 0 < s then PosInf else NegInf)"

fun js_neg :: "jsnum \<Rightarrow> jsnum" where
  "js_neg (Num a) = Num (- a)"
| "js_neg PosInf = NegInf"
| "js_neg NegInf = PosInf"
| "js_neg NaN = NaN"

fun js_add :: "jsnum \<Rightarrow> jsnum \<Rightarrow> jsnum" where
  "js_add (Num a) (Num b) = Num (a + b)"
| "js_add NaN _ = NaN"
| "js_add _ NaN = NaN"
| "js_add PosInf NegInf = NaN"
| "js_add NegInf PosInf = NaN"
| "js_add PosInf _ = PosInf"
| "js_add _ PosInf = PosInf"
| "js_add NegInf _ = NegInf"
| "js_add _ NegInf = NegInf"

definition js_sub :: "jsnum \<Rightarrow> jsnum \<Rightarrow> jsnum" where
  "js_sub a b = js_add a (js_neg b)"

fun js_mul :: "jsnum \<Rightarrow> jsnum \<Rightarrow> jsnum" where
  "js_mul (Num a) (Num b) = Num (a * b)"
| "js_mul NaN _ = NaN"
| "js_mul _ NaN = NaN"
| "js_mul PosInf (Num b) = signed_inf b"
| "js_mul (Num a) PosInf = signed_inf a"
| "js_mul NegInf (Num b) = signed_inf (- b)"
| "js_mul (Num a) NegInf = signed_inf (- a)"
| "js_mul PosInf PosInf = PosInf"
| "js_mul NegInf NegInf = PosInf"
| "js_mul PosInf NegInf = NegInf"
| "js_mul NegInf PosInf = NegInf"

fun js_div :: "jsnum \<Rightarrow> jsnum \<Rightarrow> jsnum" where
  "js_div (Num a) (Num b) = (if b = 0 then signed_inf a else Num (a / b))"
| "js_div NaN _ = NaN"
| "js_div _ NaN = NaN"
| "js_div (Num a) PosInf = Num 0"
| "js_div (Num a) NegInf = Num 0"
| "js_div PosInf (Num b) = (if 0 \<le> b then PosInf else NegInf)"
| "js_div NegInf (Num b) = (if 0 \<le> b then NegInf else PosInf)"
| "js_div _ _ = NaN"

fun js_lt :: "jsnum \<Rightarrow> jsnum \<Rightarrow> bool" where
  "js_lt (Num a) (Num b) = (a < b)"
| "js_lt NaN _ = False"
| "js_lt _ NaN = False"
| "js_lt PosInf _ = False"
| "js_lt _ NegInf = False"
| "js_lt NegInf _ = True"
| "js_lt _ PosInf = True"

fun js_le :: "jsnum \<Rightarrow> jsnum \<Rightarrow> bool" where
  "js_le (Num a) (Num b) = (a \<le> b)"
| "js_le NaN _ = False"
| "js_le _ NaN = False"
| "js_le NegInf _ = True"
| "js_le _ PosInf = True"
| "js_le _ _ = False"

definition js_gt :: "jsnum \<Rightarrow> jsnum \<Rightarrow> bool" where
  "js_gt a b = js_lt b a"

definition js_ge :: "jsnum \<Rightarrow> jsnum \<Rightarrow> bool" where
  "js_ge a b = js_le b a"

text \<open>\<open>Math.max\<close> of two arguments, \<open>Math.abs\<close>, \<open>Math.sqrt\<close> and
  \<open>Math.pow(x, 2)\<close>.\<close>

definition Math_max :: "jsnum \<Rightarrow> jsnum \<Rightarrow> jsnum" where
  "Math_max a b = (if a = NaN \<or> b = NaN then NaN else if js_lt a b then b else a)"

fun Math_abs :: "jsnum \<Rightarrow> jsnum" where
  "Math_abs (Num a) = Num \<bar>a\<bar>"
| "Math_abs PosInf = PosInf"
| "Math_abs NegInf = PosInf"
| "Math_abs NaN = NaN"

fun Math_sqrt :: "jsnum \<Rightarrow> jsnum" where
  "Math_sqrt (Num a) = (if a < 0 then NaN else Num (sqrt a))"
| "Math_sqrt PosInf = PosInf"
| "Math_sqrt NegInf = NaN"
| "Math_sqrt NaN = NaN"

fun Math_pow2 :: "jsnum \<Rightarrow> jsnum" where
  "Math_pow2 (Num a) = Num (a ^ 2)"
| "Math_pow2 PosInf = PosInf"
| "Math_pow2 NegInf = PosInf"
| "Math_pow2 NaN = NaN"

text \<open>
  \<open>Math.random()\<close> reads the next value of a random source and advances it. The source
  is the sequence of the values it will return, each in \<open>[0, 1)\<close>.
\<close>

type_synonym rng = "nat \<Rightarrow> real"

definition Math_random :: "rng \<Rightarrow> real \<times> rng" where
  "Math_random r = (r 0, \<lambda>n. r (Suc n))"

definition rng_ok :: "rng \<Rightarrow> bool" where
  "rng_ok r = (\<forall>n. 0 \<le> r n \<and> r n < 1)"

section \<open>The laboratory object\<close>

text \<open>
  The fields of \<open>PhotoelectricLaboratory\<close> that the calculations read or write. Colours,
  canvases, charts, particles and the log are presentation only and are left out. Of the
  page elements, the model keeps the value of the filter selector (read by
  \<open>getCurrentWavelengthData\<close>) and the two fields written by \<open>calculatePlanckConstant\<close>,
  holding the number shown before it is formatted (\<open>None\<close>: the page's initial text).
\<close>

datatype js_error = TypeError

record material =
  mat_name :: string
  mat_symbol :: string
  mat_workFunction :: jsnum

record filter_spec =
  flt_wavelength :: jsnum
  flt_frequency :: jsnum
  flt_energy :: jsnum

definition planckConstant :: jsnum where
  "planckConstant = Num (4136 / 10 ^ 18)"

definition speedOfLight :: jsnum where
  "speedOfLight = Num (3 * 10 ^ 8)"

definition elementaryCharge :: jsnum where
  "elementaryCharge = Num (1602 / 10 ^ 22)"

definition filters :: "string \<Rightarrow> filter_spec option" where
  "filters k =
     (if k = ''blue'' then
        Some \<lparr>flt_wavelength = Num 438, flt_frequency = Num (6849 * 10 ^ 11),
              flt_energy = Num (2833 / 1000)\<rparr>
      else if k = ''green'' then
        Some \<lparr>flt_wavelength = Num 565, flt_frequency = Num (5310 * 10 ^ 11),
              flt_energy = Num (2196 / 1000)\<rparr>
      else if k = ''yellow'' then
        Some \<lparr>flt_wavelength = Num 578, flt_frequency = Num (5190 * 10 ^ 11),
              flt_energy = Num (2147 / 1000)\<rparr>
      else if k = ''orange'' then
        Some \<lparr>flt_wavelength = Num 598, flt_frequency = Num (5017 * 10 ^ 11),
              flt_energy = Num (2075 / 1000)\<rparr>
      else None)"

definition materials :: "material list" where
  "materials =
     [\<lparr>mat_name = ''Cesium'', mat_symbol = ''Cs'', mat_workFunction = Num (210 / 100)\<rparr>,
      \<lparr>mat_name = ''Sodium'', mat_symbol = ''Na'', mat_workFunction = Num (228 / 100)\<rparr>,
      \<lparr>mat_name = ''Potassium'', mat_symbol = ''K'', mat_workFunction = Num (230 / 100)\<rparr>,
      \<lparr>mat_name = ''Aluminum'', mat_symbol = ''Al'', mat_workFunction = Num (408 / 100)\<rparr>,
      \<lparr>mat_name = ''Copper'', mat_symbol = ''Cu'', mat_workFunction = Num (470 / 100)\<rparr>,
      \<lparr>mat_name = ''Silver'', mat_symbol = ''Ag'', mat_workFunction = Num (473 / 100)\<rparr>,
      \<lparr>mat_name = ''Gold'', mat_symbol = ''Au'', mat_workFunction = Num (510 / 100)\<rparr>]"

record lab_state =
  currentMaterial :: material
  currentFilter :: string
  customWavelength :: jsnum
  voltage :: jsnum
  isExperimentActive :: bool
  measurementCount :: nat
  autoSweepActive :: bool

record measurement =
  m_voltage :: jsnum
  m_current :: jsnum
  m_standardError :: jsnum
  m_measurements :: nat
  m_material :: string
  m_wavelength :: jsnum
  m_filter :: string
  m_timestamp :: nat

record frequency_point =
  fp_wavelength :: jsnum
  fp_frequency :: jsnum
  fp_stoppingPotential :: jsnum
  fp_filter :: string

record lab =
  state :: lab_state
  filterSelect_value :: string
  experimentData :: "measurement list"
  ivData :: "(jsnum \<times> jsnum) list"
  frequencyData :: "frequency_point list"
  calculatedPlanck_shown :: "jsnum option"
  accuracy_shown :: "jsnum option"

section \<open>The physics model\<close>

record wavelength_data =
  wd_wavelength :: jsnum
  wd_frequency :: jsnum
  wd_energy :: jsnum

record physics =
  ph_wavelength :: jsnum
  ph_frequency :: jsnum
  ph_photonEnergy :: jsnum
  ph_workFunction :: jsnum
  ph_maxKineticEnergy :: jsnum
  ph_stoppingPotential :: jsnum
  ph_thresholdFrequency :: jsnum
  ph_thresholdWavelength :: jsnum
  ph_current :: jsnum
  ph_isEmission :: bool
  ph_saturationCurrent :: jsnum

text \<open>
  \<open>getCurrentWavelengthData\<close>: the custom wavelength when either the state or the selector
  says \<open>custom\<close>, the filter table otherwise. Reading a field of a missing table entry
  throws; the table is modelled with its four own keys only, not with the names every
  JavaScript object inherits.
\<close>

definition getCurrentWavelengthData :: "lab \<Rightarrow> js_error + wavelength_data" where
  "getCurrentWavelengthData l =
     (if currentFilter (state l) = ''custom'' \<or> filterSelect_value l = ''custom'' then
        let wavelength = customWavelength (state l);
            frequency = js_div speedOfLight (js_mul wavelength (Num (1 / 10 ^ 9)));
            energy = js_mul planckConstant frequency
        in Inr \<lparr>wd_wavelength = wavelength, wd_frequency = frequency, wd_energy = energy\<rparr>
      else
        (case filters (currentFilter (state l)) of
           None \<Rightarrow> Inl TypeError
         | Some flt \<Rightarrow>
             Inr \<lparr>wd_wavelength = flt_wavelength flt,
                  wd_frequency = flt_frequency flt,
                  wd_energy = flt_energy flt\<rparr>))"

text \<open>
  \<open>calculatePhysics\<close>. The random source is read once, and only in the branch that
  computes a current.
\<close>

definition calculatePhysics :: "lab \<Rightarrow> rng \<Rightarrow> js_error + (physics \<times> rng)" where
  "calculatePhysics l r =
     (case getCurrentWavelengthData l of
        Inl e \<Rightarrow> Inl e
      | Inr wavelengthData \<Rightarrow>
          let workFunction = mat_workFunction (currentMaterial (state l));
              photonEnergy = wd_energy wavelengthData;
              maxKineticEnergy = Math_max (Num 0) (js_sub photonEnergy workFunction);
              stoppingPotential = maxKineticEnergy;
              thresholdFrequency = js_div workFunction planckConstant;
              thresholdWavelength =
                js_mul (js_div speedOfLight thresholdFrequency) (Num (10 ^ 9));
              isEmission = js_gt photonEnergy workFunction;
              (current, r') =
                (if isEmission \<and> js_ge (voltage (state l)) (js_neg stoppingPotential) then
                   let saturationCurrent = Num 15;
                       current =
                         (if js_ge (voltage (state l)) (Num 0) then saturationCurrent
                          else
                            let factor =
                                  js_div (js_add (voltage (state l)) stoppingPotential)
                                    stoppingPotential
                            in js_mul saturationCurrent (Math_max (Num 0) factor));
                       (u, r') = Math_random r
                   in (js_mul current
                         (js_add (Num 1)
                            (js_mul (js_sub (Num u) (Num (5 / 10))) (Num (1 / 1000)))),
                       r')
                 else (Num 0, r))
          in Inr (\<lparr>ph_wavelength = wd_wavelength wavelengthData,
                   ph_frequency = wd_frequency wavelengthData,
                   ph_photonEnergy = photonEnergy,
                   ph_workFunction = workFunction,
                   ph_maxKineticEnergy = maxKineticEnergy,
                   ph_stoppingPotential = stoppingPotential,
                   ph_thresholdFrequency = thresholdFrequency,
                   ph_thresholdWavelength = thresholdWavelength,
                   ph_current = current,
                   ph_isEmission = isEmission,
                   ph_saturationCurrent = (if isEmission then Num 15 else Num 0)\<rparr>,
                  r'))"

section \<open>The regression estimator\<close>

text \<open>
  \<open>calculatePlanckConstant\<close> returns at once with fewer than two points. Otherwise it sums
  over the points, computes \<open>slope\<close>, \<open>calculatedH\<close> and \<open>accuracy\<close>, and writes the
  last two to the page. \<open>planck_regression\<close> is the part of its body after the guard, with
  the three locals as a record, so that they can be named.
\<close>

record regression =
  reg_slope :: jsnum
  reg_calculatedH :: jsnum
  reg_accuracy :: jsnum

definition regression_sums :: "frequency_point list \<Rightarrow> jsnum \<times> jsnum \<times> jsnum \<times> jsnum" where
  "regression_sums fd =
     foldl (\<lambda>(sumX, sumY, sumXY, sumX2) d.
              let x = js_mul (fp_frequency d) (Num (10 ^ 14));
                  y = fp_stoppingPotential d
              in (js_add sumX x, js_add sumY y, js_add sumXY (js_mul x y),
                  js_add sumX2 (js_mul x x)))
       (Num 0, Num 0, Num 0, Num 0) fd"

definition planck_regression :: "frequency_point list \<Rightarrow> regression" where
  "planck_regression fd =
     (let n = Num (real (length fd));
          (sumX, sumY, sumXY, sumX2) = regression_sums fd;
          slope = js_div (js_sub (js_mul n sumXY) (js_mul sumX sumY))
                    (js_sub (js_mul n sumX2) (js_mul sumX sumX));
          calculatedH = js_mul slope elementaryCharge;
          accuracy = js_mul (js_div calculatedH planckConstant) (Num 100)
      in \<lparr>reg_slope = slope, reg_calculatedH = calculatedH, reg_accuracy = accuracy\<rparr>)"

definition calculatePlanckConstant :: "lab \<Rightarrow> lab" where
  "calculatePlanckConstant l =
     (if length (frequencyData l) < 2 then l
      else
        let reg = planck_regression (frequencyData l)
        in l\<lparr>calculatedPlanck_shown := Some (reg_calculatedH reg),
             accuracy_shown := Some (reg_accuracy reg)\<rparr>)"

text \<open>
  \<open>updateFrequencyData\<close>: \<open>Array.prototype.find\<close> returns the first stored point within
  1 nm, or \<open>undefined\<close>; only then is a point pushed and the fit recomputed.
\<close>

definition updateFrequencyData :: "lab \<Rightarrow> physics \<Rightarrow> lab" where
  "updateFrequencyData l physics =
     (if \<not> ph_isEmission physics then l
      else
        (case find (\<lambda>d. js_lt (Math_abs (js_sub (fp_wavelength d) (ph_wavelength physics)))
                         (Num 1))
                (frequencyData l) of
           Some existing \<Rightarrow> l
         | None \<Rightarrow>
             calculatePlanckConstant
               (l\<lparr>frequencyData := frequencyData l @
                    [\<lparr>fp_wavelength = ph_wavelength physics,
                      fp_frequency = js_div (ph_frequency physics) (Num (10 ^ 14)),
                      fp_stoppingPotential = ph_stoppingPotential physics,
                      fp_filter = currentFilter (state l)\<rparr>]\<rparr>)))"

section \<open>The measurement sampler\<close>

text \<open>
  The sampling loop of \<open>takePrecisionMeasurement\<close>, by the number of iterations left: each
  iteration reads the random source once and pushes one sample.
\<close>

fun simulate_measurements :: "nat \<Rightarrow> jsnum \<Rightarrow> rng \<Rightarrow> jsnum list \<times> rng" where
  "simulate_measurements 0 current r = ([], r)"
| "simulate_measurements (Suc k) current r =
     (let (u, r1) = Math_random r;
          noise = js_mul (js_mul (js_sub (Num u) (Num (5 / 10))) (Num (1 / 1000))) current;
          (rest, r2) = simulate_measurements k current r1
      in (js_add current noise # rest, r2))"

text \<open>The statistics computed from the samples, with the four locals as a record.\<close>

record statistics =
  st_mean :: jsnum
  st_variance :: jsnum
  st_standardDeviation :: jsnum
  st_standardError :: jsnum

definition measurement_statistics :: "jsnum list \<Rightarrow> nat \<Rightarrow> statistics" where
  "measurement_statistics measurements numMeasurements =
     (let mean = js_div (foldl (\<lambda>a b. js_add a b) (Num 0) measurements)
                   (Num (real numMeasurements));
          variance = js_div (foldl (\<lambda>a b. js_add a (Math_pow2 (js_sub b mean))) (Num 0)
                               measurements)
                       (Num (real numMeasurements));
          standardDeviation = Math_sqrt variance;
          standardError = js_div standardDeviation (Math_sqrt (Num (real numMeasurements)))
      in \<lparr>st_mean = mean, st_variance = variance,
          st_standardDeviation = standardDeviation, st_standardError = standardError\<rparr>)"

text \<open>
  \<open>takePrecisionMeasurement\<close>. \<open>now\<close> is the reading of the clock taken by \<open>new Date()\<close>.
  An exception of \<open>calculatePhysics\<close> leaves the object as it was.
\<close>

definition takePrecisionMeasurement :: "lab \<Rightarrow> nat \<Rightarrow> rng \<Rightarrow> js_error + (lab \<times> rng)" where
  "takePrecisionMeasurement l now r =
     (if \<not> isExperimentActive (state l) then Inr (l, r)
      else
        (case calculatePhysics l r of
           Inl e \<Rightarrow> Inl e
         | Inr (physics, r1) \<Rightarrow>
             let numMeasurements = 1000;
                 (measurements, r2) =
                   simulate_measurements numMeasurements (ph_current physics) r1;
                 stats = measurement_statistics measurements numMeasurements;
                 measurementData =
                   \<lparr>m_voltage = voltage (state l),
                    m_current = st_mean stats,
                    m_standardError = st_standardError stats,
                    m_measurements = numMeasurements,
                    m_material = mat_name (currentMaterial (state l)),
                    m_wavelength = ph_wavelength physics,
                    m_filter = currentFilter (state l),
                    m_timestamp = now\<rparr>;
                 l1 = l\<lparr>experimentData := experimentData l @ [measurementData]\<rparr>;
                 l2 = l1\<lparr>state := (state l1)\<lparr>measurementCount :=
                                      measurementCount (state l1) + 1\<rparr>\<rparr>;
                 l3 = l2\<lparr>ivData := ivData l2 @ [(voltage (state l2), st_mean stats)]\<rparr>
             in Inr (updateFrequencyData l3 physics, r2)))"

text \<open>
  A JavaScript call may pass more arguments than the method declares; they are bound to
  nothing. \<open>takePrecisionMeasurement\<close> declares none.
\<close>

definition call_takePrecisionMeasurement ::
    "jsnum list \<Rightarrow> lab \<Rightarrow> nat \<Rightarrow> rng \<Rightarrow> js_error + (lab \<times> rng)" where
  "call_takePrecisionMeasurement args l now r = takePrecisionMeasurement l now r"

section \<open>The export\<close>

text \<open>
  A row of the CSV, each cell as the value that is formatted into it. The loop over the
  measurement log calls \<open>getCurrentWavelengthData\<close> and \<open>calculatePhysics\<close> once per row.
  With no measurement the method shows a notice and returns (\<open>None\<close>).
\<close>

record csv_row =
  csv_Timestamp :: nat
  csv_Material :: string
  csv_Work_Function_eV :: jsnum
  csv_Filter :: string
  csv_Wavelength_nm :: jsnum
  csv_Frequency_Hz :: jsnum
  csv_Photon_Energy_eV :: jsnum
  csv_Applied_Voltage_V :: jsnum
  csv_Current_microA :: jsnum
  csv_Standard_Error_microA :: jsnum
  csv_Measurements_Count :: nat
  csv_Stopping_Potential_V :: jsnum

record csv =
  csv_rows :: "csv_row list"
  csv_frequency_rows :: "(string \<times> jsnum \<times> jsnum \<times> jsnum) list"

fun export_rows :: "lab \<Rightarrow> measurement list \<Rightarrow> rng \<Rightarrow> js_error + (csv_row list \<times> rng)" where
  "export_rows l [] r = Inr ([], r)"
| "export_rows l (d # ds) r =
     (case getCurrentWavelengthData l of
        Inl e \<Rightarrow> Inl e
      | Inr wavelengthData \<Rightarrow>
          (case calculatePhysics l r of
             Inl e \<Rightarrow> Inl e
           | Inr (physics, r1) \<Rightarrow>
               let row =
                     \<lparr>csv_Timestamp = m_timestamp d,
                      csv_Material = m_material d,
                      csv_Work_Function_eV = mat_workFunction (currentMaterial (state l)),
                      csv_Filter = m_filter d,
                      csv_Wavelength_nm = m_wavelength d,
                      csv_Frequency_Hz = wd_frequency wavelengthData,
                      csv_Photon_Energy_eV = wd_energy wavelengthData,
                      csv_Applied_Voltage_V = m_voltage d,
                      csv_Current_microA = m_current d,
                      csv_Standard_Error_microA = m_standardError d,
                      csv_Measurements_Count = m_measurements d,
                      csv_Stopping_Potential_V = ph_stoppingPotential physics\<rparr>
               in (case export_rows l ds r1 of
                     Inl e \<Rightarrow> Inl e
                   | Inr (rows, r2) \<Rightarrow> Inr (row # rows, r2))))"

definition exportLaboratoryData :: "lab \<Rightarrow> rng \<Rightarrow> js_error + (csv option \<times> rng)" where
  "exportLaboratoryData l r =
     (if length (experimentData l) = 0 then Inr (None, r)
      else
        (case export_rows l (experimentData l) r of
           Inl e \<Rightarrow> Inl e
         | Inr (rows, r1) \<Rightarrow>
             Inr (Some \<lparr>csv_rows = rows,
                        csv_frequency_rows =
                          map (\<lambda>d. (fp_filter d, fp_wavelength d,
                                     js_mul (fp_frequency d) (Num (10 ^ 14)),
                                     fp_stoppingPotential d))
                            (frequencyData l)\<rparr>,
                  r1)))"

section \<open>The initial object\<close>

text \<open>The fields as the constructor sets them; the selector shows its first option.\<close>

definition initial_lab :: lab where
  "initial_lab =
     \<lparr>state = \<lparr>currentMaterial = materials ! 0, currentFilter = ''blue'',
               customWavelength = Num 438, voltage = Num 0, isExperimentActive = False,
               measurementCount = 0, autoSweepActive = False\<rparr>,
      filterSelect_value = ''blue'',
      experimentData = [], ivData = [], frequencyData = [],
      calculatedPlanck_shown = None, accuracy_shown = None\<rparr>"

text \<open>Objects and a random source used to instantiate the theorems below.\<close>

definition half_rng :: rng where
  "half_rng = (\<lambda>n. 1 / 2)"

definition with_voltage :: "lab \<Rightarrow> jsnum \<Rightarrow> lab" where
  "with_voltage l v = l\<lparr>state := (state l)\<lparr>voltage := v\<rparr>\<rparr>"

definition with_material :: "lab \<Rightarrow> material \<Rightarrow> lab" where
  "with_material l m = l\<lparr>state := (state l)\<lparr>currentMaterial := m\<rparr>\<rparr>"

definition custom_lab :: lab where
  "custom_lab = initial_lab\<lparr>filterSelect_value := ''custom''\<rparr>"

definition aluminum_lab :: lab where
  "aluminum_lab = with_voltage (with_material initial_lab (materials ! 3)) (Num 1)"

definition with_filter :: "lab \<Rightarrow> string \<Rightarrow> lab" where
  "with_filter l k = l\<lparr>state := (state l)\<lparr>currentFilter := k\<rparr>, filterSelect_value := k\<rparr>"

definition blue_physics :: physics where
  "blue_physics = fst (projr (calculatePhysics initial_lab half_rng))"

definition green_physics :: physics where
  "green_physics = fst (projr (calculatePhysics (with_filter initial_lab ''green'') half_rng))"

definition custom_physics :: physics where
  "custom_physics = fst (projr (calculatePhysics custom_lab half_rng))"

definition blue_recorded :: lab where
  "blue_recorded = updateFrequencyData initial_lab blue_physics"

text \<open>
  Two points at the frequencies of the blue and the green filter whose stopping potentials
  follow Einstein's equation in the units of the program, \<open>V = h f - \<phi>\<close> with \<open>h\<close> in
  eV s and \<open>\<phi>\<close> in eV, as \<open>calculatePhysics\<close> computes them from a photon energy
  \<open>h f\<close>.
\<close>

definition einstein_points :: "real \<Rightarrow> frequency_point list" where
  "einstein_points \<phi> =
     [\<lparr>fp_wavelength = Num 438, fp_frequency = Num (6849 / 1000),
       fp_stoppingPotential = Num (4136 / 10 ^ 18 * (6849 * 10 ^ 11) - \<phi>),
       fp_filter = ''blue''\<rparr>,
      \<lparr>fp_wavelength = Num 565, fp_frequency = Num (5310 / 1000),
       fp_stoppingPotential = Num (4136 / 10 ^ 18 * (5310 * 10 ^ 11) - \<phi>),
       fp_filter = ''green''\<rparr>]"

definition einstein_lab :: "real \<Rightarrow> lab" where
  "einstein_lab \<phi> = initial_lab\<lparr>frequencyData := einstein_points \<phi>\<rparr>"

text \<open>
  The object after a point was recorded for caesium with the blue filter, the green
  filter was selected, and a point was recorded again.
\<close>

definition green_after_blue :: lab where
  "green_after_blue = with_filter blue_recorded ''green''"

definition two_filters_recorded :: lab where
  "two_filters_recorded =
     updateFrequencyData green_after_blue
       (fst (projr (calculatePhysics green_after_blue half_rng)))"

text \<open>
  Two points that share the frequency \<open>5e14\<close> Hz. All the sums and products that
  \<open>calculatePlanckConstant\<close> forms on them are exact in binary64 as well.
\<close>

definition same_frequency_lab :: lab where
  "same_frequency_lab =
     initial_lab\<lparr>frequencyData :=
       [\<lparr>fp_wavelength = Num 599, fp_frequency = Num 5,
         fp_stoppingPotential = Num (1 / 2), fp_filter = ''orange''\<rparr>,
        \<lparr>fp_wavelength = Num 601, fp_frequency = Num 5,
         fp_stoppingPotential = Num (1 / 4), fp_filter = ''orange''\<rparr>]\<rparr>"

text \<open>A log with one measurement taken on caesium, exported after gold was selected.\<close>

definition gold_export_lab :: lab where
  "gold_export_lab =
     (with_material initial_lab (materials ! 6))
       \<lparr>experimentData :=
          [\<lparr>m_voltage = Num 0, m_current = Num 15, m_standardError = Num 0,
            m_measurements = 1000, m_material = ''Cesium'', m_wavelength = Num 438,
            m_filter = ''blue'', m_timestamp = 0\<rparr>]\<rparr>"

text \<open>The initial object after the experiment was started.\<close>

definition active_lab :: lab where
  "active_lab = initial_lab\<lparr>state := (state initial_lab)\<lparr>isExperimentActive := True\<rparr>\<rparr>"

section \<open>Properties of the stored data\<close>

text \<open>
  The stored frequency points lie at least 1 nm apart, pairwise: no two of them share a
  1 nm bucket.
\<close>

fun wavelengths_apart :: "frequency_point list \<Rightarrow> bool" where
  "wavelengths_apart [] = True"
| "wavelengths_apart (d # ds) =
     ((\<forall>e\<in>set ds. 1 \<le> \<bar>num_of (fp_wavelength d) - num_of (fp_wavelength e)\<bar>) \<and>
      wavelengths_apart ds)"

text \<open>
  The regression reads a point as the pair of its frequency in Hz (the stored value is in
  units of \<open>1e14\<close> Hz) and its stopping potential in volts.
\<close>

definition hz :: "frequency_point \<Rightarrow> real" where
  "hz d = num_of (fp_frequency d) * 10 ^ 14"

definition volts :: "frequency_point \<Rightarrow> real" where
  "volts d = num_of (fp_stoppingPotential d)"

definition finite_point :: "frequency_point \<Rightarrow> bool" where
  "finite_point d = (is_Num (fp_frequency d) \<and> is_Num (fp_stoppingPotential d))"

text \<open>The divisor of the slope in \<open>calculatePlanckConstant\<close>: \<open>n * sumX2 - sumX * sumX\<close>.\<close>

definition regression_denominator :: "frequency_point list \<Rightarrow> jsnum" where
  "regression_denominator fd =
     (let n = Num (real (length fd));
          (sumX, sumY, sumXY, sumX2) = regression_sums fd
      in js_sub (js_mul n sumX2) (js_mul sumX sumX))"

text \<open>
  The row that one iteration of the export loop builds for a measurement, with the
  stopping potential written as \<open>calculatePhysics\<close> computes it.
\<close>

definition export_row :: "lab \<Rightarrow> wavelength_data \<Rightarrow> measurement \<Rightarrow> csv_row" where
  "export_row l wd d =
     \<lparr>csv_Timestamp = m_timestamp d,
      csv_Material = m_material d,
      csv_Work_Function_eV = mat_workFunction (currentMaterial (state l)),
      csv_Filter = m_filter d,
      csv_Wavelength_nm = m_wavelength d,
      csv_Frequency_Hz = wd_frequency wd,
      csv_Photon_Energy_eV = wd_energy wd,
      csv_Applied_Voltage_V = m_voltage d,
      csv_Current_microA = m_current d,
      csv_Standard_Error_microA = m_standardError d,
      csv_Measurements_Count = m_measurements d,
      csv_Stopping_Potential_V =
        Math_max (Num 0) (js_sub (wd_energy wd) (mat_workFunction (currentMaterial (state l))))\<rparr>"

text \<open>
  The sampler as the specification words it: \<open>n\<close> samples, each the current plus
  \<open>(u - 0.5) 0.001\<close> times the current for its own draw \<open>u\<close>; the mean; and the
  population variance, which divides by the number of samples.
\<close>

definition spec_samples :: "real \<Rightarrow> rng \<Rightarrow> nat \<Rightarrow> real list" where
  "spec_samples c r n = map (\<lambda>i. c + (r i - 5 / 10) * (1 / 1000) * c) [0..<n]"

definition spec_mean :: "real list \<Rightarrow> real" where
  "spec_mean xs = sum_list xs / real (length xs)"

definition spec_variance :: "real list \<Rightarrow> real" where
  "spec_variance xs = (\<Sum>x\<leftarrow>xs. (x - spec_mean xs) ^ 2) / real (length xs)"

section \<open>Arithmetic on finite numbers\<close>

lemma Math_max_Num [simp]: "Math_max (Num a) (Num b) = Num (max a b)"
  by (simp add: Math_max_def max_def)

lemma js_sub_Num [simp]: "js_sub (Num a) (Num b) = Num (a - b)"
  by (simp add: js_sub_def)

lemma js_gt_Num [simp]: "js_gt (Num a) (Num b) = (b < a)"
  by (simp add: js_gt_def)

lemma js_ge_Num [simp]: "js_ge (Num a) (Num b) = (b \<le> a)"
  by (simp add: js_ge_def)

lemma is_Num_obtain: "is_Num x \<Longrightarrow> \<exists>a. x = Num a"
  by (cases x) auto

section \<open>The physics model on finite inputs\<close>

lemma getCurrentWavelengthData_custom:
  assumes "currentFilter (state l) = ''custom'' \<or> filterSelect_value l = ''custom''"
    and "customWavelength (state l) = Num lam" and "lam \<noteq> 0"
  shows "getCurrentWavelengthData l =
           Inr \<lparr>wd_wavelength = Num lam,
                wd_frequency = Num (3 * 10 ^ 8 / (lam * (1 / 10 ^ 9))),
                wd_energy = Num (4136 / 10 ^ 18 * (3 * 10 ^ 8 / (lam * (1 / 10 ^ 9))))\<rparr>"
  using assms
  by (auto simp: getCurrentWavelengthData_def speedOfLight_def planckConstant_def Let_def)

lemma calculatePhysics_finite:
  assumes wd: "getCurrentWavelengthData l = Inr wd"
    and E: "wd_energy wd = Num E"
    and phi: "mat_workFunction (currentMaterial (state l)) = Num \<phi>"
    and v: "voltage (state l) = Num v"
  shows "\<exists>ph r'. calculatePhysics l r = Inr (ph, r') \<and>
           ph_wavelength ph = wd_wavelength wd \<and>
           ph_frequency ph = wd_frequency wd \<and>
           ph_photonEnergy ph = Num E \<and>
           ph_workFunction ph = Num \<phi> \<and>
           ph_maxKineticEnergy ph = Num (max 0 (E - \<phi>)) \<and>
           ph_stoppingPotential ph = Num (max 0 (E - \<phi>)) \<and>
           ph_isEmission ph = (\<phi> < E) \<and>
           ph_saturationCurrent ph = (if \<phi> < E then Num 15 else Num 0) \<and>
           ph_current ph =
             (if \<phi> < E \<and> - (E - \<phi>) \<le> v then
                Num ((if 0 \<le> v then 15 else 15 * max 0 ((v + (E - \<phi>)) / (E - \<phi>)))
                     * (1 + (r 0 - 5 / 10) * (1 / 1000)))
              else Num 0) \<and>
           r' = (if \<phi> < E \<and> - (E - \<phi>) \<le> v then (\<lambda>n. r (Suc n)) else r)"
  using assms
  by (auto simp: calculatePhysics_def Math_random_def Let_def max_def split: prod.splits)

lemma initial_lab_wavelength_data:
  "getCurrentWavelengthData (with_voltage (with_material initial_lab m) v) =
     Inr \<lparr>wd_wavelength = Num 438, wd_frequency = Num (6849 * 10 ^ 11),
          wd_energy = Num (2833 / 1000)\<rparr>"
  by (simp add: getCurrentWavelengthData_def filters_def initial_lab_def with_voltage_def
      with_material_def)

lemma getCurrentWavelengthData_filter_energy:
  assumes "currentFilter (state l) \<noteq> ''custom''" "filterSelect_value l \<noteq> ''custom''"
    and "currentFilter (state l) \<in> {''blue'', ''green'', ''yellow'', ''orange''}"
  shows "\<exists>wd E. getCurrentWavelengthData l = Inr wd \<and> wd_energy wd = Num E \<and>
           0 < E \<and> E \<le> 1241"
proof -
  from assms(3) consider "currentFilter (state l) = ''blue''"
    | "currentFilter (state l) = ''green''" | "currentFilter (state l) = ''yellow''"
    | "currentFilter (state l) = ''orange''" by auto
  then show ?thesis
  proof cases
    case 1
    then show ?thesis using assms(2)
      by (intro exI [of _ "\<lparr>wd_wavelength = Num 438, wd_frequency = Num (6849 * 10 ^ 11),
              wd_energy = Num (2833 / 1000)\<rparr>"] exI [of _ "2833 / 1000"])
        (simp add: getCurrentWavelengthData_def filters_def)
  next
    case 2
    then show ?thesis using assms(2)
      by (intro exI [of _ "\<lparr>wd_wavelength = Num 565, wd_frequency = Num (5310 * 10 ^ 11),
              wd_energy = Num (2196 / 1000)\<rparr>"] exI [of _ "2196 / 1000"])
        (simp add: getCurrentWavelengthData_def filters_def)
  next
    case 3
    then show ?thesis using assms(2)
      by (intro exI [of _ "\<lparr>wd_wavelength = Num 578, wd_frequency = Num (5190 * 10 ^ 11),
              wd_energy = Num (2147 / 1000)\<rparr>"] exI [of _ "2147 / 1000"])
        (simp add: getCurrentWavelengthData_def filters_def)
  next
    case 4
    then show ?thesis using assms(2)
      by (intro exI [of _ "\<lparr>wd_wavelength = Num 598, wd_frequency = Num (5017 * 10 ^ 11),
              wd_energy = Num (2075 / 1000)\<rparr>"] exI [of _ "2075 / 1000"])
        (simp add: getCurrentWavelengthData_def filters_def)
  qed
qed

lemma custom_energy_bound:
  assumes "(1::real) \<le> lam"
  shows "0 < 4136 / 10 ^ 18 * (3 * 10 ^ 8 / (lam * (1 / 10 ^ 9))) \<and>
         4136 / 10 ^ 18 * (3 * 10 ^ 8 / (lam * (1 / 10 ^ 9))) \<le> 1241"
proof -
  have eq: "4136 / 10 ^ 18 * (3 * 10 ^ 8 / (lam * (1 / 10 ^ 9))) = (12408 / 10) / lam"
    using assms by (simp add: field_simps)
  have "(12408 / 10) / lam \<le> (12408 / 10) / 1"
    using assms by (intro divide_left_mono) auto
  moreover have "0 < (12408 / 10) / lam" using assms by simp
  ultimately show ?thesis unfolding eq by simp
qed

lemma calculatePhysics_current_form:
  assumes wd: "getCurrentWavelengthData l = Inr wd"
    and E: "wd_energy wd = Num E"
    and phi: "mat_workFunction (currentMaterial (state l)) = Num \<phi>"
  shows "\<exists>ph r'. calculatePhysics l r = Inr (ph, r') \<and>
           ph_photonEnergy ph = Num E \<and>
           ph_stoppingPotential ph = Num (max 0 (E - \<phi>)) \<and>
           ph_isEmission ph = (\<phi> < E) \<and>
           ph_saturationCurrent ph = (if \<phi> < E then Num 15 else Num 0) \<and>
           ph_current ph =
             (if \<phi> < E \<and> js_ge (voltage (state l)) (Num (- (E - \<phi>))) then
                Num ((if js_ge (voltage (state l)) (Num 0) then 15
                      else 15 * max 0 ((num_of (voltage (state l)) + (E - \<phi>)) / (E - \<phi>)))
                     * (1 + (r 0 - 5 / 10) * (1 / 1000)))
              else Num 0)"
  using wd E phi
  by (cases "voltage (state l)")
    (auto simp: calculatePhysics_def Math_random_def Let_def max_def js_ge_def
      split: prod.splits)

lemma jitter_factor_bounds:
  assumes "0 \<le> (u::real)" "u < 1"
  shows "0 \<le> 1 + (u - 5 / 10) * (1 / 1000) \<and> 1 + (u - 5 / 10) * (1 / 1000) \<le> 16 / 15"
  using assms by (simp add: field_simps)

lemma ramp_bounds:
  assumes "\<phi> < E" "js_ge v (Num (- (E - \<phi>)))"
  shows "0 \<le> (if js_ge v (Num 0) then 15
               else 15 * max 0 ((num_of v + (E - \<phi>)) / (E - \<phi>))) \<and>
         (if js_ge v (Num 0) then 15
          else 15 * max 0 ((num_of v + (E - \<phi>)) / (E - \<phi>))) \<le> (15::real)"
proof (cases "js_ge v (Num 0)")
  case True
  then show ?thesis by simp
next
  case False
  with assms(2) obtain x where v: "v = Num x" and x: "- (E - \<phi>) \<le> x" "x < 0"
    by (cases v) (auto simp: js_ge_def)
  define q where "q = (x + (E - \<phi>)) / (E - \<phi>)"
  have "0 \<le> q" unfolding q_def using assms(1) x by simp
  moreover have "q \<le> 1" unfolding q_def using assms(1) x by simp
  ultimately have "0 \<le> 15 * max 0 q \<and> 15 * max 0 q \<le> 15" by (simp add: max_def)
  then show ?thesis using False by (simp only: v q_def if_False jsnum.sel)
qed

lemma calculatePhysics_any_voltage:
  assumes wd: "getCurrentWavelengthData l = Inr wd"
    and E: "wd_energy wd = Num E"
    and phi: "mat_workFunction (currentMaterial (state l)) = Num \<phi>"
  shows "\<exists>ph r'. calculatePhysics l r = Inr (ph, r') \<and>
           ph_photonEnergy ph = Num E \<and>
           ph_stoppingPotential ph = Num (max 0 (E - \<phi>)) \<and>
           ph_isEmission ph = (\<phi> < E) \<and>
           ph_saturationCurrent ph = (if \<phi> < E then Num 15 else Num 0) \<and>
           is_Num (ph_current ph) \<and>
           (\<not> \<phi> < E \<longrightarrow> ph_current ph = Num 0) \<and>
           (0 \<le> r 0 \<and> r 0 < 1 \<longrightarrow>
              js_le (Num 0) (ph_current ph) \<and> js_le (ph_current ph) (Num 16))"
proof -
  define F :: real where "F = (if js_ge (voltage (state l)) (Num 0) then 15
      else 15 * max 0 ((num_of (voltage (state l)) + (E - \<phi>)) / (E - \<phi>)))"
  define J :: real where "J = 1 + (r 0 - 5 / 10) * (1 / 1000)"
  define G where "G = (\<phi> < E \<and> js_ge (voltage (state l)) (Num (- (E - \<phi>))))"
  obtain ph r' where ph: "calculatePhysics l r = Inr (ph, r')"
    and pe: "ph_photonEnergy ph = Num E"
    and sp: "ph_stoppingPotential ph = Num (max 0 (E - \<phi>))"
    and em: "ph_isEmission ph = (\<phi> < E)"
    and sat: "ph_saturationCurrent ph = (if \<phi> < E then Num 15 else Num 0)"
    and cur: "ph_current ph = (if G then Num (F * J) else Num 0)"
    using calculatePhysics_current_form [OF wd E phi, of r]
    unfolding F_def J_def G_def by blast
  have a: "is_Num (ph_current ph)" using cur by simp
  have b: "\<not> \<phi> < E \<longrightarrow> ph_current ph = Num 0" using cur by (simp add: G_def)
  have c: "0 \<le> r 0 \<and> r 0 < 1 \<longrightarrow>
              js_le (Num 0) (ph_current ph) \<and> js_le (ph_current ph) (Num 16)"
  proof
    assume u: "0 \<le> r 0 \<and> r 0 < 1"
    show "js_le (Num 0) (ph_current ph) \<and> js_le (ph_current ph) (Num 16)"
    proof (cases G)
      case True
      then have Fb: "0 \<le> F" "F \<le> 15"
        using ramp_bounds [of \<phi> E "voltage (state l)"] unfolding G_def F_def by simp_all
      have Jb: "0 \<le> J" "J \<le> 16 / 15"
        using jitter_factor_bounds [of "r 0"] u unfolding J_def by simp_all
      have "F * J \<le> 15 * (16 / 15)" using Fb Jb by (intro mult_mono) auto
      moreover have "0 \<le> F * J" using Fb Jb by simp
      ultimately show ?thesis using cur True by simp
    next
      case False
      then show ?thesis using cur by simp
    qed
  qed
  show ?thesis using ph pe sp em sat a b c by blast
qed

text \<open>
  C1. With a custom wavelength \<open>lam > 0\<close> (in nm) and a work function \<open>\<phi> \<ge> 0\<close>,
  \<open>calculatePhysics\<close> returns; the photon energy is \<open>h c / (lam 1e-9)\<close> with
  \<open>h = 4.136e-15\<close> and \<open>c = 3e8\<close>; emission is reported exactly when the photon energy is
  strictly greater than the work function, so not at equality; the maximal kinetic energy
  is \<open>max 0 (photonEnergy - \<phi>)\<close>, which is never negative; and the stopping potential is
  the same number.
\<close>

theorem calculatePhysics_custom_wavelength:
  assumes custom: "currentFilter (state l) = ''custom'' \<or> filterSelect_value l = ''custom''"
    and lam: "customWavelength (state l) = Num lam" "0 < lam"
    and phi: "mat_workFunction (currentMaterial (state l)) = Num \<phi>" "0 \<le> \<phi>"
  shows "\<exists>ph r'. calculatePhysics l r = Inr (ph, r') \<and>
           ph_photonEnergy ph = Num (4136 / 10 ^ 18 * (3 * 10 ^ 8) / (lam * (1 / 10 ^ 9))) \<and>
           ph_isEmission ph = js_gt (ph_photonEnergy ph) (Num \<phi>) \<and>
           (ph_photonEnergy ph = Num \<phi> \<longrightarrow> \<not> ph_isEmission ph) \<and>
           ph_maxKineticEnergy ph =
             Num (max 0 (4136 / 10 ^ 18 * (3 * 10 ^ 8) / (lam * (1 / 10 ^ 9)) - \<phi>)) \<and>
           js_ge (ph_maxKineticEnergy ph) (Num 0) \<and>
           ph_stoppingPotential ph = ph_maxKineticEnergy ph"
proof -
  have wd: "getCurrentWavelengthData l =
           Inr \<lparr>wd_wavelength = Num lam,
                wd_frequency = Num (3 * 10 ^ 8 / (lam * (1 / 10 ^ 9))),
                wd_energy = Num (4136 / 10 ^ 18 * (3 * 10 ^ 8 / (lam * (1 / 10 ^ 9))))\<rparr>"
    using getCurrentWavelengthData_custom [OF custom lam(1)] lam(2) by simp
  show ?thesis
    using phi(1)
    by (auto simp: calculatePhysics_def wd Let_def split: prod.splits)
qed

theorem calculatePhysics_custom_wavelength_witness:
  "(currentFilter (state custom_lab) = ''custom'' \<or> filterSelect_value custom_lab = ''custom'') \<and>
   customWavelength (state custom_lab) = Num 438 \<and> (0::real) < 438 \<and>
   mat_workFunction (currentMaterial (state custom_lab)) = Num (21 / 10) \<and>
   (0::real) \<le> 21 / 10 \<and>
   (\<exists>ph r'. calculatePhysics custom_lab half_rng = Inr (ph, r') \<and>
      ph_photonEnergy ph = Num (1034 / 365) \<and> ph_isEmission ph \<and>
      ph_maxKineticEnergy ph = Num (107 / 146) \<and>
      ph_stoppingPotential ph = Num (107 / 146))"
  using calculatePhysics_custom_wavelength [of custom_lab 438 "21 / 10" half_rng]
  by (auto simp: custom_lab_def initial_lab_def materials_def js_gt_def)

text \<open>
  C2. With a finite photon energy \<open>E\<close>, work function \<open>\<phi>\<close> and voltage \<open>v\<close>, and a random
  value \<open>r 0\<close> in \<open>[0, 1)\<close>: when the state emits (\<open>\<phi> < E\<close>, stopping potential
  \<open>E - \<phi> > 0\<close>) the current is the jitter factor \<open>1 + (r 0 - 0.5) 0.001\<close> times 15 for
  \<open>v \<ge> 0\<close>, times \<open>15 max 0 ((v + Vs) / Vs)\<close> for \<open>-Vs \<le> v < 0\<close>, and it is 0 for
  \<open>v \<le> -Vs\<close>; at \<open>v = 0\<close> it is within 0.1 percent of 15. When the state does not emit
  the current is 0.
\<close>

theorem calculatePhysics_current:
  assumes wd: "getCurrentWavelengthData l = Inr wd"
    and E: "wd_energy wd = Num E"
    and phi: "mat_workFunction (currentMaterial (state l)) = Num \<phi>"
    and v: "voltage (state l) = Num v"
    and u: "0 \<le> r 0" "r 0 < 1"
  shows "\<exists>ph r'. calculatePhysics l r = Inr (ph, r') \<and>
           ph_isEmission ph = (\<phi> < E) \<and>
           (ph_isEmission ph \<longrightarrow>
              ph_stoppingPotential ph = Num (E - \<phi>) \<and> 0 < E - \<phi> \<and>
              (0 \<le> v \<longrightarrow>
                 ph_current ph = Num (15 * (1 + (r 0 - 5 / 10) * (1 / 1000)))) \<and>
              (- (E - \<phi>) \<le> v \<and> v < 0 \<longrightarrow>
                 ph_current ph =
                   Num (15 * max 0 ((v + (E - \<phi>)) / (E - \<phi>))
                        * (1 + (r 0 - 5 / 10) * (1 / 1000)))) \<and>
              (v \<le> - (E - \<phi>) \<longrightarrow> ph_current ph = Num 0) \<and>
              (v = 0 \<longrightarrow>
                 (\<exists>c. ph_current ph = Num c \<and> \<bar>c - 15\<bar> \<le> 15 * (1 / 1000)))) \<and>
           (\<not> ph_isEmission ph \<longrightarrow> ph_current ph = Num 0)"
proof -
  obtain ph r' where ph: "calculatePhysics l r = Inr (ph, r')"
    and em: "ph_isEmission ph = (\<phi> < E)"
    and sp: "ph_stoppingPotential ph = Num (max 0 (E - \<phi>))"
    and cur: "ph_current ph =
             (if \<phi> < E \<and> - (E - \<phi>) \<le> v then
                Num ((if 0 \<le> v then 15 else 15 * max 0 ((v + (E - \<phi>)) / (E - \<phi>)))
                     * (1 + (r 0 - 5 / 10) * (1 / 1000)))
              else Num 0)"
    using calculatePhysics_finite [OF wd E phi v, of r] by blast
  have jit: "\<bar>15 * (1 + (r 0 - 5 / 10) * (1 / 1000)) - 15\<bar> \<le> 15 * (1 / 1000)"
    using u by (simp add: abs_le_iff)
  have edge: "v = - (E - \<phi>) \<Longrightarrow> \<phi> < E \<Longrightarrow> ph_current ph = Num 0"
    using cur by simp
  have below: "v < - (E - \<phi>) \<Longrightarrow> ph_current ph = Num 0"
    using cur by simp
  have "ph_isEmission ph \<longrightarrow>
              ph_stoppingPotential ph = Num (E - \<phi>) \<and> 0 < E - \<phi> \<and>
              (0 \<le> v \<longrightarrow>
                 ph_current ph = Num (15 * (1 + (r 0 - 5 / 10) * (1 / 1000)))) \<and>
              (- (E - \<phi>) \<le> v \<and> v < 0 \<longrightarrow>
                 ph_current ph =
                   Num (15 * max 0 ((v + (E - \<phi>)) / (E - \<phi>))
                        * (1 + (r 0 - 5 / 10) * (1 / 1000)))) \<and>
              (v \<le> - (E - \<phi>) \<longrightarrow> ph_current ph = Num 0) \<and>
              (v = 0 \<longrightarrow>
                 (\<exists>c. ph_current ph = Num c \<and> \<bar>c - 15\<bar> \<le> 15 * (1 / 1000)))"
  proof
    assume "ph_isEmission ph"
    then have lt: "\<phi> < E" using em by simp
    have a: "ph_stoppingPotential ph = Num (E - \<phi>)" using sp lt by simp
    have b: "0 \<le> v \<longrightarrow> ph_current ph = Num (15 * (1 + (r 0 - 5 / 10) * (1 / 1000)))"
      using cur lt by simp
    have c: "- (E - \<phi>) \<le> v \<and> v < 0 \<longrightarrow>
                 ph_current ph =
                   Num (15 * max 0 ((v + (E - \<phi>)) / (E - \<phi>))
                        * (1 + (r 0 - 5 / 10) * (1 / 1000)))"
      using cur lt by simp
    have d: "v \<le> - (E - \<phi>) \<longrightarrow> ph_current ph = Num 0"
      using edge below lt by (cases "v = - (E - \<phi>)") auto
    have e: "v = 0 \<longrightarrow> (\<exists>c. ph_current ph = Num c \<and> \<bar>c - 15\<bar> \<le> 15 * (1 / 1000))"
      using b jit by auto
    show "ph_stoppingPotential ph = Num (E - \<phi>) \<and> 0 < E - \<phi> \<and>
              (0 \<le> v \<longrightarrow>
                 ph_current ph = Num (15 * (1 + (r 0 - 5 / 10) * (1 / 1000)))) \<and>
              (- (E - \<phi>) \<le> v \<and> v < 0 \<longrightarrow>
                 ph_current ph =
                   Num (15 * max 0 ((v + (E - \<phi>)) / (E - \<phi>))
                        * (1 + (r 0 - 5 / 10) * (1 / 1000)))) \<and>
              (v \<le> - (E - \<phi>) \<longrightarrow> ph_current ph = Num 0) \<and>
              (v = 0 \<longrightarrow>
                 (\<exists>c. ph_current ph = Num c \<and> \<bar>c - 15\<bar> \<le> 15 * (1 / 1000)))"
      using a b c d e lt by simp
  qed
  moreover have "\<not> ph_isEmission ph \<longrightarrow> ph_current ph = Num 0"
    using cur em by simp
  ultimately show ?thesis using ph em by blast
qed

theorem calculatePhysics_current_witness:
  "getCurrentWavelengthData (with_voltage (with_material initial_lab (materials ! 0)) (Num (- 3 / 10))) =
     Inr \<lparr>wd_wavelength = Num 438, wd_frequency = Num (6849 * 10 ^ 11),
          wd_energy = Num (2833 / 1000)\<rparr> \<and>
   mat_workFunction (currentMaterial (state
     (with_voltage (with_material initial_lab (materials ! 0)) (Num (- 3 / 10))))) = Num (21 / 10) \<and>
   voltage (state (with_voltage (with_material initial_lab (materials ! 0)) (Num (- 3 / 10))))
     = Num (- 3 / 10) \<and>
   0 \<le> half_rng 0 \<and> half_rng 0 < 1 \<and>
   (\<exists>ph r'. calculatePhysics
               (with_voltage (with_material initial_lab (materials ! 0)) (Num (- 3 / 10)))
               half_rng = Inr (ph, r') \<and>
      ph_isEmission ph \<and> ph_stoppingPotential ph = Num (733 / 1000) \<and>
      ph_current ph = Num (15 * (433 / 733))) \<and>
   (\<exists>ph r'. calculatePhysics
               (with_voltage (with_material initial_lab (materials ! 0)) (Num 0))
               half_rng = Inr (ph, r') \<and>
      ph_isEmission ph \<and> ph_current ph = Num 15) \<and>
   (\<exists>ph r'. calculatePhysics
               (with_voltage (with_material initial_lab (materials ! 0)) (Num (- 1)))
               half_rng = Inr (ph, r') \<and>
      ph_isEmission ph \<and> ph_current ph = Num 0) \<and>
   (\<exists>ph r'. calculatePhysics
               (with_voltage (with_material initial_lab (materials ! 3)) (Num 1))
               half_rng = Inr (ph, r') \<and>
      \<not> ph_isEmission ph \<and> ph_current ph = Num 0)"
proof -
  let ?W = "\<lparr>wd_wavelength = Num 438, wd_frequency = Num (6849 * 10 ^ 11),
          wd_energy = Num (2833 / 1000)\<rparr>"
  have E: "wd_energy ?W = Num (2833 / 1000)" by simp
  have cs: "\<And>v. mat_workFunction (currentMaterial (state
     (with_voltage (with_material initial_lab (materials ! 0)) v))) = Num (21 / 10)"
    by (simp add: with_voltage_def with_material_def materials_def)
  have al: "\<And>v. mat_workFunction (currentMaterial (state
     (with_voltage (with_material initial_lab (materials ! 3)) v))) = Num (408 / 100)"
    by (simp add: with_voltage_def with_material_def materials_def)
  have vv: "\<And>m v. voltage (state (with_voltage (with_material initial_lab m) v)) = v"
    by (simp add: with_voltage_def with_material_def)
  have u: "0 \<le> half_rng 0" "half_rng 0 < 1" by (simp_all add: half_rng_def)
  have a: "\<exists>ph r'. calculatePhysics
               (with_voltage (with_material initial_lab (materials ! 0)) (Num (- 3 / 10)))
               half_rng = Inr (ph, r') \<and>
      ph_isEmission ph \<and> ph_stoppingPotential ph = Num (733 / 1000) \<and>
      ph_current ph = Num (15 * (433 / 733))"
    using calculatePhysics_current [of "with_voltage (with_material initial_lab (materials ! 0)) (Num (- 3 / 10))"
        "\<lparr>wd_wavelength = Num 438, wd_frequency = Num (6849 * 10 ^ 11),
          wd_energy = Num (2833 / 1000)\<rparr>" "2833 / 1000" "21 / 10" "- 3 / 10" half_rng]
    by (auto simp: initial_lab_wavelength_data cs al vv half_rng_def)
  have b: "\<exists>ph r'. calculatePhysics
               (with_voltage (with_material initial_lab (materials ! 0)) (Num 0))
               half_rng = Inr (ph, r') \<and>
      ph_isEmission ph \<and> ph_current ph = Num 15"
    using calculatePhysics_current [of "with_voltage (with_material initial_lab (materials ! 0)) (Num (0))"
        "\<lparr>wd_wavelength = Num 438, wd_frequency = Num (6849 * 10 ^ 11),
          wd_energy = Num (2833 / 1000)\<rparr>" "2833 / 1000" "21 / 10" "0" half_rng]
    by (auto simp: initial_lab_wavelength_data cs al vv half_rng_def)
  have c: "\<exists>ph r'. calculatePhysics
               (with_voltage (with_material initial_lab (materials ! 0)) (Num (- 1)))
               half_rng = Inr (ph, r') \<and>
      ph_isEmission ph \<and> ph_current ph = Num 0"
    using calculatePhysics_current [of "with_voltage (with_material initial_lab (materials ! 0)) (Num (- 1))"
        "\<lparr>wd_wavelength = Num 438, wd_frequency = Num (6849 * 10 ^ 11),
          wd_energy = Num (2833 / 1000)\<rparr>" "2833 / 1000" "21 / 10" "- 1" half_rng]
    by (auto simp: initial_lab_wavelength_data cs al vv half_rng_def)
  have d: "\<exists>ph r'. calculatePhysics
               (with_voltage (with_material initial_lab (materials ! 3)) (Num 1))
               half_rng = Inr (ph, r') \<and>
      \<not> ph_isEmission ph \<and> ph_current ph = Num 0"
    using calculatePhysics_current [of "with_voltage (with_material initial_lab (materials ! 3)) (Num (1))"
        "\<lparr>wd_wavelength = Num 438, wd_frequency = Num (6849 * 10 ^ 11),
          wd_energy = Num (2833 / 1000)\<rparr>" "2833 / 1000" "408 / 100" "1" half_rng]
    by (auto simp: initial_lab_wavelength_data cs al vv half_rng_def)
  show ?thesis
    using initial_lab_wavelength_data E cs vv u a b c d by simp
qed

text \<open>
  C7, as the code has it. With a custom wavelength of at least 1 nm or one of the four
  filters, a finite work function and any voltage, \<open>calculatePhysics\<close> returns without
  throwing; the photon energy is a positive number of at most 1241 eV, and the current is
  a finite number, between 0 and 16 when the random value is in \<open>[0, 1)\<close>. The ramp's
  division by the stopping potential sits under the emission test, and emission implies a
  stopping potential greater than 0. A stopping potential of 0 means no emission: the
  current and the reported saturation current are then 0 at every voltage, so there is
  no step at \<open>V = 0\<close>.
\<close>

theorem calculatePhysics_current_finite:
  assumes light:
      "((currentFilter (state l) = ''custom'' \<or> filterSelect_value l = ''custom'') \<and>
          (\<exists>lam. customWavelength (state l) = Num lam \<and> 1 \<le> lam)) \<or>
       (currentFilter (state l) \<noteq> ''custom'' \<and> filterSelect_value l \<noteq> ''custom'' \<and>
          currentFilter (state l) \<in> {''blue'', ''green'', ''yellow'', ''orange''})"
    and phi: "mat_workFunction (currentMaterial (state l)) = Num \<phi>"
  shows "\<exists>ph r'. calculatePhysics l r = Inr (ph, r') \<and>
           is_Num (ph_current ph) \<and>
           (0 \<le> r 0 \<and> r 0 < 1 \<longrightarrow>
              js_le (Num 0) (ph_current ph) \<and> js_le (ph_current ph) (Num 16)) \<and>
           (\<exists>E. ph_photonEnergy ph = Num E \<and> 0 < E \<and> E \<le> 1241) \<and>
           (ph_isEmission ph \<longrightarrow> (\<exists>s. ph_stoppingPotential ph = Num s \<and> 0 < s)) \<and>
           (ph_stoppingPotential ph = Num 0 \<longrightarrow>
              \<not> ph_isEmission ph \<and> ph_current ph = Num 0 \<and>
              ph_saturationCurrent ph = Num 0)"
proof -
  have "\<exists>wd E. getCurrentWavelengthData l = Inr wd \<and> wd_energy wd = Num E \<and>
          0 < E \<and> E \<le> 1241"
  proof -
    from light show ?thesis
    proof
      assume c: "(currentFilter (state l) = ''custom'' \<or> filterSelect_value l = ''custom'') \<and>
          (\<exists>lam. customWavelength (state l) = Num lam \<and> 1 \<le> lam)"
      then obtain lam where lam: "customWavelength (state l) = Num lam" "1 \<le> lam" by auto
      then have "lam \<noteq> 0" by simp
      with c lam show ?thesis
        using getCurrentWavelengthData_custom [of l lam] custom_energy_bound [of lam] by auto
    next
      assume "currentFilter (state l) \<noteq> ''custom'' \<and> filterSelect_value l \<noteq> ''custom'' \<and>
          currentFilter (state l) \<in> {''blue'', ''green'', ''yellow'', ''orange''}"
      then show ?thesis
        using getCurrentWavelengthData_filter_energy [of l] by blast
    qed
  qed
  then obtain wd E where wd: "getCurrentWavelengthData l = Inr wd"
    and E: "wd_energy wd = Num E" and Eb: "0 < E" "E \<le> 1241"
    by blast
  obtain ph r' where ph: "calculatePhysics l r = Inr (ph, r')"
    and pe: "ph_photonEnergy ph = Num E"
    and sp: "ph_stoppingPotential ph = Num (max 0 (E - \<phi>))"
    and em: "ph_isEmission ph = (\<phi> < E)"
    and sat: "ph_saturationCurrent ph = (if \<phi> < E then Num 15 else Num 0)"
    and fin: "is_Num (ph_current ph)"
    and zero: "\<not> \<phi> < E \<longrightarrow> ph_current ph = Num 0"
    and bnd: "0 \<le> r 0 \<and> r 0 < 1 \<longrightarrow>
              js_le (Num 0) (ph_current ph) \<and> js_le (ph_current ph) (Num 16)"
    using calculatePhysics_any_voltage [OF wd E phi, of r] by blast
  have a: "\<exists>E. ph_photonEnergy ph = Num E \<and> 0 < E \<and> E \<le> 1241"
    using pe Eb by blast
  have b: "ph_isEmission ph \<longrightarrow> (\<exists>s. ph_stoppingPotential ph = Num s \<and> 0 < s)"
    using em sp by simp
  have c: "ph_stoppingPotential ph = Num 0 \<longrightarrow>
              \<not> ph_isEmission ph \<and> ph_current ph = Num 0 \<and> ph_saturationCurrent ph = Num 0"
    using em sp sat zero by (auto simp: max_def split: if_splits)
  show ?thesis using ph fin bnd a b c by blast
qed

theorem calculatePhysics_current_finite_witness:
  "currentFilter (state aluminum_lab) \<noteq> ''custom'' \<and>
   filterSelect_value aluminum_lab \<noteq> ''custom'' \<and>
   currentFilter (state aluminum_lab) \<in> {''blue'', ''green'', ''yellow'', ''orange''} \<and>
   mat_workFunction (currentMaterial (state aluminum_lab)) = Num (408 / 100) \<and>
   0 \<le> half_rng 0 \<and> half_rng 0 < 1 \<and>
   (\<exists>ph r'. calculatePhysics aluminum_lab half_rng = Inr (ph, r') \<and>
      ph_stoppingPotential ph = Num 0 \<and> \<not> ph_isEmission ph \<and>
      ph_current ph = Num 0 \<and> ph_saturationCurrent ph = Num 0) \<and>
   (currentFilter (state custom_lab) = ''custom'' \<or> filterSelect_value custom_lab = ''custom'') \<and>
   customWavelength (state custom_lab) = Num 438 \<and> (1::real) \<le> 438 \<and>
   mat_workFunction (currentMaterial (state custom_lab)) = Num (21 / 10) \<and>
   (\<exists>ph r'. calculatePhysics custom_lab half_rng = Inr (ph, r') \<and>
      ph_isEmission ph \<and> is_Num (ph_current ph) \<and>
      js_le (Num 0) (ph_current ph) \<and> js_le (ph_current ph) (Num 16) \<and>
      (\<exists>s. ph_stoppingPotential ph = Num s \<and> 0 < s))"
proof -
  have h: "currentFilter (state aluminum_lab) \<noteq> ''custom''"
      "filterSelect_value aluminum_lab \<noteq> ''custom''"
      "currentFilter (state aluminum_lab) \<in> {''blue'', ''green'', ''yellow'', ''orange''}"
      "mat_workFunction (currentMaterial (state aluminum_lab)) = Num (408 / 100)"
    by (simp_all add: aluminum_lab_def with_voltage_def with_material_def initial_lab_def
        materials_def)
  have u: "0 \<le> half_rng 0" "half_rng 0 < 1" by (simp_all add: half_rng_def)
  have i: "currentFilter (state custom_lab) = ''custom'' \<or> filterSelect_value custom_lab = ''custom''"
      "customWavelength (state custom_lab) = Num 438"
      "mat_workFunction (currentMaterial (state custom_lab)) = Num (21 / 10)"
    by (simp_all add: custom_lab_def initial_lab_def materials_def)
  have al: "\<exists>ph r'. calculatePhysics aluminum_lab half_rng = Inr (ph, r') \<and>
      ph_stoppingPotential ph = Num 0 \<and> \<not> ph_isEmission ph \<and>
      ph_current ph = Num 0 \<and> ph_saturationCurrent ph = Num 0"
  proof -
    from calculatePhysics_current_finite [of aluminum_lab "408 / 100" half_rng] h
    obtain ph r' where ph: "calculatePhysics aluminum_lab half_rng = Inr (ph, r')"
      and z: "ph_stoppingPotential ph = Num 0 \<longrightarrow>
              \<not> ph_isEmission ph \<and> ph_current ph = Num 0 \<and> ph_saturationCurrent ph = Num 0"
      by auto
    have "ph_stoppingPotential ph = Num 0"
      using ph
      by (auto simp: calculatePhysics_def getCurrentWavelengthData_def filters_def
          initial_lab_def aluminum_lab_def with_voltage_def with_material_def materials_def
          Let_def)
    with ph z show ?thesis by blast
  qed
  have cu: "\<exists>ph r'. calculatePhysics custom_lab half_rng = Inr (ph, r') \<and>
      ph_isEmission ph \<and> is_Num (ph_current ph) \<and>
      js_le (Num 0) (ph_current ph) \<and> js_le (ph_current ph) (Num 16) \<and>
      (\<exists>s. ph_stoppingPotential ph = Num s \<and> 0 < s)"
  proof -
    have l: "(currentFilter (state custom_lab) = ''custom'' \<or>
           filterSelect_value custom_lab = ''custom'') \<and>
          (\<exists>lam. customWavelength (state custom_lab) = Num lam \<and> 1 \<le> lam)"
      using i by simp
    from calculatePhysics_current_finite [of custom_lab "21 / 10" half_rng] l i(3)
    obtain ph r' where ph: "calculatePhysics custom_lab half_rng = Inr (ph, r')"
      and f: "is_Num (ph_current ph)"
      and b: "0 \<le> half_rng 0 \<and> half_rng 0 < 1 \<longrightarrow>
              js_le (Num 0) (ph_current ph) \<and> js_le (ph_current ph) (Num 16)"
      and e: "ph_isEmission ph \<longrightarrow> (\<exists>s. ph_stoppingPotential ph = Num s \<and> 0 < s)"
      by blast
    have "ph_isEmission ph"
      using ph
      by (auto simp: calculatePhysics_def getCurrentWavelengthData_def custom_lab_def
          initial_lab_def materials_def Let_def planckConstant_def speedOfLight_def
          split: if_splits prod.splits)
    with ph f b e u show ?thesis by blast
  qed
  show ?thesis using h u i al cu by simp
qed

text \<open>
  C7, as the claim states it, fails for aluminium behind the blue filter at 1 V: the
  stopping potential is 0, the voltage is not negative, and the current is 0 rather than
  the saturation current of 15.
\<close>

theorem calculatePhysics_zero_stopping_potential_counterexample:
  "\<not> isl (calculatePhysics aluminum_lab half_rng) \<and>
   js_ge (voltage (state aluminum_lab)) (Num 0) \<and>
   ph_stoppingPotential (fst (projr (calculatePhysics aluminum_lab half_rng))) = Num 0 \<and>
   ph_current (fst (projr (calculatePhysics aluminum_lab half_rng))) = Num 0 \<and>
   ph_current (fst (projr (calculatePhysics aluminum_lab half_rng))) \<noteq> Num 15"
  by (simp add: calculatePhysics_def getCurrentWavelengthData_def filters_def initial_lab_def
      aluminum_lab_def with_voltage_def with_material_def materials_def Let_def)

text \<open>
  C10. When the experiment is not active, \<open>takePrecisionMeasurement\<close> returns at once: the
  object, with its measurement log, I-V data, frequency points and measurement count, and
  the random source are as before.
\<close>

theorem takePrecisionMeasurement_inactive:
  assumes "\<not> isExperimentActive (state l)"
  shows "takePrecisionMeasurement l now r = Inr (l, r)"
  using assms by (simp add: takePrecisionMeasurement_def)

theorem takePrecisionMeasurement_inactive_witness:
  "\<not> isExperimentActive (state initial_lab) \<and>
   takePrecisionMeasurement initial_lab 0 half_rng = Inr (initial_lab, half_rng)"
  using takePrecisionMeasurement_inactive [of initial_lab 0 half_rng]
  by (simp add: initial_lab_def)

section \<open>The frequency points\<close>

lemma frequencyData_calculatePlanckConstant [simp]:
  "frequencyData (calculatePlanckConstant l) = frequencyData l"
  by (simp add: calculatePlanckConstant_def Let_def)

lemma state_calculatePlanckConstant [simp]:
  "state (calculatePlanckConstant l) = state l"
  by (simp add: calculatePlanckConstant_def Let_def)

lemma wavelengths_apart_snoc:
  "wavelengths_apart (ds @ [p]) =
     (wavelengths_apart ds \<and>
      (\<forall>d\<in>set ds. 1 \<le> \<bar>num_of (fp_wavelength d) - num_of (fp_wavelength p)\<bar>))"
  by (induction ds) auto

lemma find_within_1nm:
  assumes "\<forall>d\<in>set ds. is_Num (fp_wavelength d)"
  shows "(find (\<lambda>d. js_lt (Math_abs (js_sub (fp_wavelength d) (Num w))) (Num 1)) ds = None) =
         (\<forall>d\<in>set ds. 1 \<le> \<bar>num_of (fp_wavelength d) - w\<bar>)"
proof -
  have "\<And>d. d \<in> set ds \<Longrightarrow>
          js_lt (Math_abs (js_sub (fp_wavelength d) (Num w))) (Num 1) =
          (\<bar>num_of (fp_wavelength d) - w\<bar> < 1)"
  proof -
    fix d assume "d \<in> set ds"
    then obtain a where "fp_wavelength d = Num a" using assms is_Num_obtain by blast
    then show "js_lt (Math_abs (js_sub (fp_wavelength d) (Num w))) (Num 1) =
          (\<bar>num_of (fp_wavelength d) - w\<bar> < 1)" by simp
  qed
  then show ?thesis by (auto simp: find_None_iff)
qed

lemma blue_physics_eq:
  "blue_physics =
     \<lparr>ph_wavelength = Num 438, ph_frequency = Num 684900000000000,
      ph_photonEnergy = Num (2833 / 1000), ph_workFunction = Num (21 / 10),
      ph_maxKineticEnergy = Num (733 / 1000), ph_stoppingPotential = Num (733 / 1000),
      ph_thresholdFrequency = Num (262500000000000000 / 517),
      ph_thresholdWavelength = Num (4136 / 7), ph_current = Num 15,
      ph_isEmission = True, ph_saturationCurrent = Num 15\<rparr>"
  by (simp add: blue_physics_def calculatePhysics_def getCurrentWavelengthData_def filters_def
      initial_lab_def materials_def half_rng_def Math_random_def Let_def planckConstant_def
      speedOfLight_def)

lemma green_physics_eq:
  "green_physics =
     \<lparr>ph_wavelength = Num 565, ph_frequency = Num 531000000000000,
      ph_photonEnergy = Num (549 / 250), ph_workFunction = Num (21 / 10),
      ph_maxKineticEnergy = Num (12 / 125), ph_stoppingPotential = Num (12 / 125),
      ph_thresholdFrequency = Num (262500000000000000 / 517),
      ph_thresholdWavelength = Num (4136 / 7), ph_current = Num 15,
      ph_isEmission = True, ph_saturationCurrent = Num 15\<rparr>"
  by (simp add: green_physics_def calculatePhysics_def getCurrentWavelengthData_def filters_def
      initial_lab_def with_filter_def materials_def half_rng_def Math_random_def Let_def
      planckConstant_def speedOfLight_def)

lemma custom_physics_wavelength:
  "ph_wavelength custom_physics = Num 438 \<and> ph_isEmission custom_physics"
  by (simp add: custom_physics_def custom_lab_def calculatePhysics_def
      getCurrentWavelengthData_def initial_lab_def materials_def half_rng_def Math_random_def
      Let_def planckConstant_def speedOfLight_def)

lemma blue_recorded_frequencyData:
  "frequencyData blue_recorded =
     [\<lparr>fp_wavelength = Num 438, fp_frequency = Num (6849 / 1000),
       fp_stoppingPotential = Num (733 / 1000), fp_filter = ''blue''\<rparr>]"
  by (simp add: blue_recorded_def updateFrequencyData_def blue_physics_eq initial_lab_def)

text \<open>
  C6. With finite wavelengths, \<open>updateFrequencyData\<close> appends one point, and changes no
  stored point, exactly when the state emits and every stored wavelength differs from the
  new one by at least 1 nm; in every other case the collection is as before. So stored
  points are never updated, and a collection whose wavelengths are pairwise at least 1 nm
  apart stays so.
\<close>

theorem updateFrequencyData_first_write_wins:
  assumes fin: "\<forall>d\<in>set (frequencyData l). is_Num (fp_wavelength d)"
    and w: "ph_wavelength ph = Num w"
  shows "frequencyData (updateFrequencyData l ph) =
           (if ph_isEmission ph \<and>
               (\<forall>d\<in>set (frequencyData l). 1 \<le> \<bar>num_of (fp_wavelength d) - w\<bar>)
            then frequencyData l @
                   [\<lparr>fp_wavelength = Num w,
                     fp_frequency = js_div (ph_frequency ph) (Num (10 ^ 14)),
                     fp_stoppingPotential = ph_stoppingPotential ph,
                     fp_filter = currentFilter (state l)\<rparr>]
            else frequencyData l) \<and>
         (wavelengths_apart (frequencyData l) \<longrightarrow>
            wavelengths_apart (frequencyData (updateFrequencyData l ph))) \<and>
         (\<forall>d\<in>set (frequencyData (updateFrequencyData l ph)). is_Num (fp_wavelength d))"
proof -
  have eq: "frequencyData (updateFrequencyData l ph) =
           (if ph_isEmission ph \<and>
               (\<forall>d\<in>set (frequencyData l). 1 \<le> \<bar>num_of (fp_wavelength d) - w\<bar>)
            then frequencyData l @
                   [\<lparr>fp_wavelength = Num w,
                     fp_frequency = js_div (ph_frequency ph) (Num (10 ^ 14)),
                     fp_stoppingPotential = ph_stoppingPotential ph,
                     fp_filter = currentFilter (state l)\<rparr>]
            else frequencyData l)"
    using find_within_1nm [OF fin, of w]
    by (auto simp: updateFrequencyData_def w split: option.splits)
  have inv: "wavelengths_apart (frequencyData l) \<longrightarrow>
            wavelengths_apart (frequencyData (updateFrequencyData l ph))"
    unfolding eq by (simp add: wavelengths_apart_snoc)
  have fin': "\<forall>d\<in>set (frequencyData (updateFrequencyData l ph)). is_Num (fp_wavelength d)"
    unfolding eq using fin by simp
  show ?thesis using eq inv fin' by blast
qed

theorem updateFrequencyData_first_write_wins_witness:
  "list_all (\<lambda>d. is_Num (fp_wavelength d)) (frequencyData blue_recorded) \<and>
   ph_wavelength custom_physics = Num 438 \<and>
   ph_wavelength green_physics = Num 565 \<and>
   wavelengths_apart (frequencyData blue_recorded) \<and>
   frequencyData (updateFrequencyData blue_recorded custom_physics) =
     frequencyData blue_recorded \<and>
   frequencyData (updateFrequencyData blue_recorded green_physics) =
     frequencyData blue_recorded @
       [\<lparr>fp_wavelength = Num 565, fp_frequency = Num (531 / 100),
         fp_stoppingPotential = Num (12 / 125), fp_filter = ''blue''\<rparr>] \<and>
   wavelengths_apart (frequencyData (updateFrequencyData blue_recorded green_physics))"
proof -
  have fin: "\<forall>d\<in>set (frequencyData blue_recorded). is_Num (fp_wavelength d)"
    by (simp add: blue_recorded_frequencyData)
  have cur: "currentFilter (state blue_recorded) = ''blue''"
    by (simp add: blue_recorded_def updateFrequencyData_def blue_physics_eq initial_lab_def)
  have ap: "wavelengths_apart (frequencyData blue_recorded)"
    by (simp add: blue_recorded_frequencyData)
  have a: "frequencyData (updateFrequencyData blue_recorded custom_physics) =
     frequencyData blue_recorded"
    using updateFrequencyData_first_write_wins [OF fin, of custom_physics 438]
    by (simp add: custom_physics_wavelength blue_recorded_frequencyData)
  have b: "frequencyData (updateFrequencyData blue_recorded green_physics) =
     frequencyData blue_recorded @
       [\<lparr>fp_wavelength = Num 565, fp_frequency = Num (531 / 100),
         fp_stoppingPotential = Num (12 / 125), fp_filter = ''blue''\<rparr>]"
    using updateFrequencyData_first_write_wins [OF fin, of green_physics 565]
    by (simp add: green_physics_eq blue_recorded_frequencyData cur)
  have c: "wavelengths_apart (frequencyData (updateFrequencyData blue_recorded green_physics))"
  proof -
    have gw: "ph_wavelength green_physics = Num 565" by (simp add: green_physics_eq)
    from updateFrequencyData_first_write_wins [OF fin gw] ap show ?thesis by blast
  qed
  show ?thesis
    using fin ap a b c by (simp add: custom_physics_wavelength green_physics_eq list_all_iff)
qed

section \<open>The regression on finite points\<close>

lemma regression_step_finite:
  assumes "\<forall>d\<in>set fd. finite_point d"
  shows "foldl (\<lambda>(sumX, sumY, sumXY, sumX2) d.
              let x = js_mul (fp_frequency d) (Num (10 ^ 14));
                  y = fp_stoppingPotential d
              in (js_add sumX x, js_add sumY y, js_add sumXY (js_mul x y),
                  js_add sumX2 (js_mul x x)))
       (Num a, Num b, Num c, Num e) fd =
     (Num (a + (\<Sum>d\<leftarrow>fd. hz d)), Num (b + (\<Sum>d\<leftarrow>fd. volts d)),
      Num (c + (\<Sum>d\<leftarrow>fd. hz d * volts d)), Num (e + (\<Sum>d\<leftarrow>fd. hz d * hz d)))"
  using assms
proof (induction fd arbitrary: a b c e)
  case Nil
  then show ?case by simp
next
  case (Cons d fd)
  from Cons.prems obtain f y where d: "fp_frequency d = Num f" "fp_stoppingPotential d = Num y"
    using is_Num_obtain by (auto simp: finite_point_def) blast
  have rest: "\<forall>d\<in>set fd. finite_point d" using Cons.prems by simp
  show ?case
    using Cons.IH [OF rest] by (simp add: d hz_def volts_def Let_def algebra_simps)
qed

lemma regression_sums_finite:
  assumes "\<forall>d\<in>set fd. finite_point d"
  shows "regression_sums fd =
     (Num (\<Sum>d\<leftarrow>fd. hz d), Num (\<Sum>d\<leftarrow>fd. volts d),
      Num (\<Sum>d\<leftarrow>fd. hz d * volts d), Num (\<Sum>d\<leftarrow>fd. hz d * hz d))"
  unfolding regression_sums_def using regression_step_finite [OF assms, of 0 0 0 0] by simp

lemma planck_regression_finite:
  assumes "\<forall>d\<in>set fd. finite_point d"
  shows "planck_regression fd =
     (let slope = js_div
            (Num (real (length fd) * (\<Sum>d\<leftarrow>fd. hz d * volts d)
                  - (\<Sum>d\<leftarrow>fd. hz d) * (\<Sum>d\<leftarrow>fd. volts d)))
            (Num (real (length fd) * (\<Sum>d\<leftarrow>fd. hz d * hz d)
                  - (\<Sum>d\<leftarrow>fd. hz d) * (\<Sum>d\<leftarrow>fd. hz d)));
          calculatedH = js_mul slope (Num (1602 / 10 ^ 22));
          accuracy = js_mul (js_div calculatedH (Num (4136 / 10 ^ 18))) (Num 100)
      in \<lparr>reg_slope = slope, reg_calculatedH = calculatedH, reg_accuracy = accuracy\<rparr>)"
  by (simp add: planck_regression_def regression_sums_finite [OF assms] Let_def
      elementaryCharge_def planckConstant_def)

lemma js_div_zero_not_finite: "\<not> is_Num (js_div a (Num 0))"
  by (cases a) (auto simp: signed_inf_def)

lemma js_mul_not_finite:
  assumes "\<not> is_Num v" "b \<noteq> 0"
  shows "\<not> is_Num (js_mul v (Num b))"
  using assms by (cases v) (auto simp: signed_inf_def)

lemma js_div_not_finite:
  assumes "\<not> is_Num v"
  shows "\<not> is_Num (js_div v (Num b))"
  using assms by (cases v) auto

lemma planck_regression_slope:
  "\<exists>numerator. reg_slope (planck_regression fd) = js_div numerator (regression_denominator fd)"
  by (auto simp: planck_regression_def regression_denominator_def Let_def split: prod.splits)

lemma planck_regression_derived:
  "reg_calculatedH (planck_regression fd) =
     js_mul (reg_slope (planck_regression fd)) (Num (1602 / 10 ^ 22)) \<and>
   reg_accuracy (planck_regression fd) =
     js_mul (js_div (reg_calculatedH (planck_regression fd)) (Num (4136 / 10 ^ 18))) (Num 100)"
  by (simp add: planck_regression_def Let_def elementaryCharge_def planckConstant_def
      split: prod.splits)

lemma planck_regression_zero_denominator:
  assumes "regression_denominator fd = Num 0"
  shows "\<not> is_Num (reg_slope (planck_regression fd)) \<and>
         \<not> is_Num (reg_calculatedH (planck_regression fd)) \<and>
         \<not> is_Num (reg_accuracy (planck_regression fd))"
proof -
  obtain numerator where
    "reg_slope (planck_regression fd) = js_div numerator (regression_denominator fd)"
    using planck_regression_slope by blast
  then have s: "\<not> is_Num (reg_slope (planck_regression fd))"
    using assms js_div_zero_not_finite by simp
  have h: "\<not> is_Num (reg_calculatedH (planck_regression fd))"
    using planck_regression_derived [of fd] js_mul_not_finite [OF s, of "1602 / 10 ^ 22"]
    by simp
  have "\<not> is_Num (js_div (reg_calculatedH (planck_regression fd)) (Num (4136 / 10 ^ 18)))"
    using js_div_not_finite [OF h] .
  then have a: "\<not> is_Num (reg_accuracy (planck_regression fd))"
    using planck_regression_derived [of fd] js_mul_not_finite [of _ 100] by simp
  show ?thesis using s h a by blast
qed

lemma regression_denominator_two_points:
  assumes "fp_frequency p1 = Num f" "fp_frequency p2 = Num f"
  shows "regression_denominator [p1, p2] = Num 0"
  using assms
  by (simp add: regression_denominator_def regression_sums_def Let_def algebra_simps
      split: prod.splits)

lemma planck_regression_einstein_points:
  "planck_regression (einstein_points \<phi>) =
     \<lparr>reg_slope = Num (4136 / 10 ^ 18),
      reg_calculatedH = Num (4136 / 10 ^ 18 * (1602 / 10 ^ 22)),
      reg_accuracy = Num (1602 / 10 ^ 20)\<rparr>"
proof -
  let ?fd = "einstein_points \<phi>"
  have fin: "\<forall>d\<in>set ?fd. finite_point d"
    by (simp add: einstein_points_def finite_point_def)
  define k :: real where "k = 4136 / 10 ^ 18"
  have num: "real (length ?fd) * (\<Sum>d\<leftarrow>?fd. hz d * volts d)
                  - (\<Sum>d\<leftarrow>?fd. hz d) * (\<Sum>d\<leftarrow>?fd. volts d)
             = k * (1539 * 10 ^ 11) ^ 2"
    by (simp add: einstein_points_def hz_def volts_def k_def algebra_simps)
  have den: "real (length ?fd) * (\<Sum>d\<leftarrow>?fd. hz d * hz d)
                  - (\<Sum>d\<leftarrow>?fd. hz d) * (\<Sum>d\<leftarrow>?fd. hz d) = (1539 * 10 ^ 11) ^ 2"
    by (simp add: einstein_points_def hz_def)
  show ?thesis
    unfolding planck_regression_finite [OF fin] num den
    by (simp add: Let_def k_def)
qed

lemma two_filters_recorded_frequencyData:
  "frequencyData two_filters_recorded =
     [\<lparr>fp_wavelength = Num 438, fp_frequency = Num (6849 / 1000),
       fp_stoppingPotential = Num (733 / 1000), fp_filter = ''blue''\<rparr>,
      \<lparr>fp_wavelength = Num 565, fp_frequency = Num (5310 / 1000),
       fp_stoppingPotential = Num (96 / 1000), fp_filter = ''green''\<rparr>]"
  by (simp add: two_filters_recorded_def green_after_blue_def with_filter_def
      blue_recorded_def blue_physics_eq updateFrequencyData_def calculatePhysics_def
      getCurrentWavelengthData_def filters_def initial_lab_def materials_def half_rng_def
      Math_random_def Let_def planckConstant_def speedOfLight_def calculatePlanckConstant_def)

text \<open>
  C3. The slope, the estimate and the accuracy are computed by the formulas of the claim
  (\<open>planck_regression_finite\<close>), but the estimate does not recover Planck's constant.
  On two points at \<open>6.849e14\<close> and \<open>5.310e14\<close> Hz whose stopping potentials follow
  Einstein's equation \<open>V = h f - \<phi>\<close>, for every work function \<open>\<phi>\<close>, the slope is
  \<open>h = 4.136e-15\<close>; the estimate shown is the slope times \<open>1.602e-19\<close>, about
  \<open>6.63e-34\<close>, and the accuracy shown is \<open>1.602e-17\<close> percent, not 100. The same
  happens on the two points that the program records for caesium with the blue and the
  green filter (0.733 V and 0.096 V): the estimate is below \<open>6.64e-34\<close> and the accuracy
  below \<open>1e-16\<close> percent.
\<close>

theorem calculatePlanckConstant_einstein_points:
  "calculatedPlanck_shown (calculatePlanckConstant (einstein_lab \<phi>)) =
     Some (Num (4136 / 10 ^ 18 * (1602 / 10 ^ 22))) \<and>
   accuracy_shown (calculatePlanckConstant (einstein_lab \<phi>)) = Some (Num (1602 / 10 ^ 20)) \<and>
   frequencyData two_filters_recorded =
     [\<lparr>fp_wavelength = Num 438, fp_frequency = Num (6849 / 1000),
       fp_stoppingPotential = Num (733 / 1000), fp_filter = ''blue''\<rparr>,
      \<lparr>fp_wavelength = Num 565, fp_frequency = Num (5310 / 1000),
       fp_stoppingPotential = Num (96 / 1000), fp_filter = ''green''\<rparr>] \<and>
   calculatedPlanck_shown two_filters_recorded =
     Some (Num (637 / (1539 * 10 ^ 14) * (1602 / 10 ^ 22))) \<and>
   accuracy_shown two_filters_recorded =
     Some (Num (637 / (1539 * 10 ^ 14) * (1602 / 10 ^ 22) / (4136 / 10 ^ 18) * 100)) \<and>
   js_lt (Num (637 / (1539 * 10 ^ 14) * (1602 / 10 ^ 22))) (Num (664 / 10 ^ 36)) \<and>
   js_lt (Num (637 / (1539 * 10 ^ 14) * (1602 / 10 ^ 22) / (4136 / 10 ^ 18) * 100))
     (Num (1 / 10 ^ 16))"
proof -
  have e: "calculatePlanckConstant (einstein_lab \<phi>) =
      (einstein_lab \<phi>)\<lparr>calculatedPlanck_shown := Some (Num (4136 / 10 ^ 18 * (1602 / 10 ^ 22))),
        accuracy_shown := Some (Num (1602 / 10 ^ 20))\<rparr>"
  proof -
    have fd: "frequencyData (einstein_lab \<phi>) = einstein_points \<phi>"
      by (simp add: einstein_lab_def)
    have n: "\<not> length (einstein_points \<phi>) < 2" by (simp add: einstein_points_def)
    show ?thesis
      by (simp add: calculatePlanckConstant_def fd n planck_regression_einstein_points Let_def)
  qed
  have r: "calculatedPlanck_shown two_filters_recorded =
     Some (Num (637 / (1539 * 10 ^ 14) * (1602 / 10 ^ 22))) \<and>
   accuracy_shown two_filters_recorded =
     Some (Num (637 / (1539 * 10 ^ 14) * (1602 / 10 ^ 22) / (4136 / 10 ^ 18) * 100))"
    by (simp add: two_filters_recorded_def green_after_blue_def with_filter_def
      blue_recorded_def blue_physics_eq updateFrequencyData_def calculatePhysics_def
      getCurrentWavelengthData_def filters_def initial_lab_def materials_def half_rng_def
      Math_random_def Let_def planckConstant_def speedOfLight_def calculatePlanckConstant_def
      planck_regression_def regression_sums_def elementaryCharge_def)
  have b: "js_lt (Num (637 / (1539 * 10 ^ 14) * (1602 / 10 ^ 22))) (Num (664 / 10 ^ 36)) \<and>
   js_lt (Num (637 / (1539 * 10 ^ 14) * (1602 / 10 ^ 22) / (4136 / 10 ^ 18) * 100))
     (Num (1 / 10 ^ 16))"
    by simp
  show ?thesis using e r b two_filters_recorded_frequencyData by simp
qed

text \<open>
  C4, as the code has it. With fewer than two points \<open>calculatePlanckConstant\<close> returns
  at once and changes nothing. With two or more points it always divides and writes the
  estimate and the accuracy to the page: nothing tests the divisor of the slope. When
  that divisor is 0 the slope is not a finite number, and neither are the estimate and
  the accuracy that are written. The divisor is 0 for two points that share a frequency
  (between \<open>1e14\<close> and \<open>1e16\<close> Hz).
\<close>

theorem calculatePlanckConstant_degenerate:
  "(length (frequencyData l) < 2 \<longrightarrow> calculatePlanckConstant l = l) \<and>
   (2 \<le> length (frequencyData l) \<longrightarrow>
      calculatedPlanck_shown (calculatePlanckConstant l) =
        Some (js_mul (reg_slope (planck_regression (frequencyData l))) (Num (1602 / 10 ^ 22))) \<and>
      accuracy_shown (calculatePlanckConstant l) =
        Some (js_mul
          (js_div (js_mul (reg_slope (planck_regression (frequencyData l)))
                     (Num (1602 / 10 ^ 22)))
             (Num (4136 / 10 ^ 18)))
          (Num 100)) \<and>
      (regression_denominator (frequencyData l) = Num 0 \<longrightarrow>
         \<not> is_Num (reg_slope (planck_regression (frequencyData l))) \<and>
         (\<exists>h a. calculatedPlanck_shown (calculatePlanckConstant l) = Some h \<and> \<not> is_Num h \<and>
                accuracy_shown (calculatePlanckConstant l) = Some a \<and> \<not> is_Num a))) \<and>
   (\<forall>p1 p2 f. frequencyData l = [p1, p2] \<and> fp_frequency p1 = Num f \<and>
      fp_frequency p2 = Num f \<and> 1 \<le> f \<and> f \<le> 100 \<longrightarrow>
        regression_denominator (frequencyData l) = Num 0)"
proof -
  let ?fd = "frequencyData l"
  have a: "length ?fd < 2 \<longrightarrow> calculatePlanckConstant l = l"
    by (simp add: calculatePlanckConstant_def)
  have shown: "2 \<le> length ?fd \<Longrightarrow>
      calculatedPlanck_shown (calculatePlanckConstant l) =
        Some (reg_calculatedH (planck_regression ?fd)) \<and>
      accuracy_shown (calculatePlanckConstant l) = Some (reg_accuracy (planck_regression ?fd))"
    by (simp add: calculatePlanckConstant_def Let_def)
  have b: "2 \<le> length ?fd \<longrightarrow>
      calculatedPlanck_shown (calculatePlanckConstant l) =
        Some (js_mul (reg_slope (planck_regression ?fd)) (Num (1602 / 10 ^ 22))) \<and>
      accuracy_shown (calculatePlanckConstant l) =
        Some (js_mul
          (js_div (js_mul (reg_slope (planck_regression ?fd)) (Num (1602 / 10 ^ 22)))
             (Num (4136 / 10 ^ 18)))
          (Num 100)) \<and>
      (regression_denominator ?fd = Num 0 \<longrightarrow>
         \<not> is_Num (reg_slope (planck_regression ?fd)) \<and>
         (\<exists>h a. calculatedPlanck_shown (calculatePlanckConstant l) = Some h \<and> \<not> is_Num h \<and>
                accuracy_shown (calculatePlanckConstant l) = Some a \<and> \<not> is_Num a))"
  proof
    assume n: "2 \<le> length ?fd"
    have 1: "calculatedPlanck_shown (calculatePlanckConstant l) =
        Some (js_mul (reg_slope (planck_regression ?fd)) (Num (1602 / 10 ^ 22)))"
      using shown [OF n] planck_regression_derived [of ?fd] by simp
    have 2: "accuracy_shown (calculatePlanckConstant l) =
        Some (js_mul
          (js_div (js_mul (reg_slope (planck_regression ?fd)) (Num (1602 / 10 ^ 22)))
             (Num (4136 / 10 ^ 18)))
          (Num 100))"
      using shown [OF n] planck_regression_derived [of ?fd] by simp
    have 3: "regression_denominator ?fd = Num 0 \<longrightarrow>
         \<not> is_Num (reg_slope (planck_regression ?fd)) \<and>
         (\<exists>h a. calculatedPlanck_shown (calculatePlanckConstant l) = Some h \<and> \<not> is_Num h \<and>
                accuracy_shown (calculatePlanckConstant l) = Some a \<and> \<not> is_Num a)"
      using shown [OF n] planck_regression_zero_denominator [of ?fd] by auto
    show "calculatedPlanck_shown (calculatePlanckConstant l) =
        Some (js_mul (reg_slope (planck_regression ?fd)) (Num (1602 / 10 ^ 22))) \<and>
      accuracy_shown (calculatePlanckConstant l) =
        Some (js_mul
          (js_div (js_mul (reg_slope (planck_regression ?fd)) (Num (1602 / 10 ^ 22)))
             (Num (4136 / 10 ^ 18)))
          (Num 100)) \<and>
      (regression_denominator ?fd = Num 0 \<longrightarrow>
         \<not> is_Num (reg_slope (planck_regression ?fd)) \<and>
         (\<exists>h a. calculatedPlanck_shown (calculatePlanckConstant l) = Some h \<and> \<not> is_Num h \<and>
                accuracy_shown (calculatePlanckConstant l) = Some a \<and> \<not> is_Num a))"
      using 1 2 3 by blast
  qed
  have c: "\<forall>p1 p2 f. ?fd = [p1, p2] \<and> fp_frequency p1 = Num f \<and>
      fp_frequency p2 = Num f \<and> 1 \<le> f \<and> f \<le> 100 \<longrightarrow>
        regression_denominator ?fd = Num 0"
    using regression_denominator_two_points by auto
  show ?thesis using a b c by blast
qed

theorem calculatePlanckConstant_degenerate_witness:
  "length (frequencyData initial_lab) < 2 \<and>
   calculatePlanckConstant initial_lab = initial_lab \<and>
   2 \<le> length (frequencyData same_frequency_lab) \<and>
   fp_frequency (frequencyData same_frequency_lab ! 0) = Num 5 \<and>
   fp_frequency (frequencyData same_frequency_lab ! 1) = Num 5 \<and>
   (1::real) \<le> 5 \<and> (5::real) \<le> 100 \<and>
   regression_denominator (frequencyData same_frequency_lab) = Num 0 \<and>
   \<not> is_Num (reg_slope (planck_regression (frequencyData same_frequency_lab))) \<and>
   (\<exists>h a. calculatedPlanck_shown (calculatePlanckConstant same_frequency_lab) = Some h \<and>
      \<not> is_Num h \<and>
      accuracy_shown (calculatePlanckConstant same_frequency_lab) = Some a \<and> \<not> is_Num a)"
proof -
  have a: "length (frequencyData initial_lab) < 2" by (simp add: initial_lab_def)
  have fd: "frequencyData same_frequency_lab =
      [frequencyData same_frequency_lab ! 0, frequencyData same_frequency_lab ! 1]"
    by (simp add: same_frequency_lab_def)
  have f: "fp_frequency (frequencyData same_frequency_lab ! 0) = Num 5"
      "fp_frequency (frequencyData same_frequency_lab ! 1) = Num 5"
    by (simp_all add: same_frequency_lab_def)
  have n: "2 \<le> length (frequencyData same_frequency_lab)"
    by (simp add: same_frequency_lab_def)
  note t = calculatePlanckConstant_degenerate [of same_frequency_lab]
  from t have two: "\<forall>p1 p2 f. frequencyData same_frequency_lab = [p1, p2] \<and>
      fp_frequency p1 = Num f \<and> fp_frequency p2 = Num f \<and> 1 \<le> f \<and> f \<le> 100 \<longrightarrow>
        regression_denominator (frequencyData same_frequency_lab) = Num 0"
    by blast
  have den: "regression_denominator (frequencyData same_frequency_lab) = Num 0"
    by (rule two [rule_format, of "frequencyData same_frequency_lab ! 0"
          "frequencyData same_frequency_lab ! 1" 5])
      (simp add: same_frequency_lab_def)
  show ?thesis
    using a n f den t calculatePlanckConstant_degenerate [of initial_lab] by auto
qed

text \<open>
  C4, as the claim states it, fails on two points at \<open>5e14\<close> Hz with 0.5 V and 0.25 V:
  the slope is \<open>0 / 0\<close> and the page is given \<open>NaN\<close> for the estimate and for the
  accuracy.
\<close>

theorem calculatePlanckConstant_identical_frequencies_counterexample:
  "length (frequencyData same_frequency_lab) = 2 \<and>
   fp_frequency (frequencyData same_frequency_lab ! 0) =
     fp_frequency (frequencyData same_frequency_lab ! 1) \<and>
   calculatedPlanck_shown (calculatePlanckConstant same_frequency_lab) = Some NaN \<and>
   accuracy_shown (calculatePlanckConstant same_frequency_lab) = Some NaN"
  by (simp add: same_frequency_lab_def calculatePlanckConstant_def planck_regression_def
      regression_sums_def Let_def signed_inf_def elementaryCharge_def planckConstant_def)

section \<open>The exported rows\<close>

lemma calculatePhysics_stoppingPotential:
  assumes "getCurrentWavelengthData l = Inr wd"
  shows "\<exists>ph r'. calculatePhysics l r = Inr (ph, r') \<and>
           ph_stoppingPotential ph =
             Math_max (Num 0) (js_sub (wd_energy wd) (mat_workFunction (currentMaterial (state l))))"
  using assms by (auto simp: calculatePhysics_def Let_def split: prod.splits)

lemma export_rows_map:
  assumes wd: "getCurrentWavelengthData l = Inr wd"
  shows "\<exists>r'. export_rows l ds r = Inr (map (export_row l wd) ds, r')"
proof (induction ds arbitrary: r)
  case Nil
  then show ?case by simp
next
  case (Cons d ds)
  obtain ph r1 where ph: "calculatePhysics l r = Inr (ph, r1)"
    and sp: "ph_stoppingPotential ph =
             Math_max (Num 0) (js_sub (wd_energy wd) (mat_workFunction (currentMaterial (state l))))"
    using calculatePhysics_stoppingPotential [OF wd, of r] by blast
  obtain r2 where rest: "export_rows l ds r1 = Inr (map (export_row l wd) ds, r2)"
    using Cons.IH [of r1] by blast
  show ?case
    by (simp add: wd ph sp rest export_row_def)
qed

text \<open>
  C9. When the light source resolves and the log is not empty, the export succeeds with
  one row per measurement. In every row the work function, the frequency, the photon
  energy and the stopping potential are those of the material, light source and state
  selected when the export runs, so they are the same in all rows; the timestamp, material
  name, filter, wavelength, voltage, current, standard error and sample count are those of
  the stored measurement.
\<close>

theorem exportLaboratoryData_columns:
  assumes wd: "getCurrentWavelengthData l = Inr wd"
    and data: "experimentData l \<noteq> []"
  shows "\<exists>c r'. exportLaboratoryData l r = Inr (Some c, r') \<and>
           length (csv_rows c) = length (experimentData l) \<and>
           (\<forall>i<length (experimentData l).
              csv_Work_Function_eV (csv_rows c ! i) = mat_workFunction (currentMaterial (state l)) \<and>
              csv_Frequency_Hz (csv_rows c ! i) = wd_frequency wd \<and>
              csv_Photon_Energy_eV (csv_rows c ! i) = wd_energy wd \<and>
              csv_Stopping_Potential_V (csv_rows c ! i) =
                Math_max (Num 0)
                  (js_sub (wd_energy wd) (mat_workFunction (currentMaterial (state l)))) \<and>
              csv_Timestamp (csv_rows c ! i) = m_timestamp (experimentData l ! i) \<and>
              csv_Material (csv_rows c ! i) = m_material (experimentData l ! i) \<and>
              csv_Filter (csv_rows c ! i) = m_filter (experimentData l ! i) \<and>
              csv_Wavelength_nm (csv_rows c ! i) = m_wavelength (experimentData l ! i) \<and>
              csv_Applied_Voltage_V (csv_rows c ! i) = m_voltage (experimentData l ! i) \<and>
              csv_Current_microA (csv_rows c ! i) = m_current (experimentData l ! i) \<and>
              csv_Standard_Error_microA (csv_rows c ! i) =
                m_standardError (experimentData l ! i) \<and>
              csv_Measurements_Count (csv_rows c ! i) = m_measurements (experimentData l ! i))"
proof -
  obtain r' where rows:
      "export_rows l (experimentData l) r = Inr (map (export_row l wd) (experimentData l), r')"
    using export_rows_map [OF wd] by blast
  let ?c = "\<lparr>csv_rows = map (export_row l wd) (experimentData l),
             csv_frequency_rows =
               map (\<lambda>d. (fp_filter d, fp_wavelength d,
                          js_mul (fp_frequency d) (Num (10 ^ 14)),
                          fp_stoppingPotential d))
                 (frequencyData l)\<rparr>"
  have ex: "exportLaboratoryData l r = Inr (Some ?c, r')"
    using data by (simp add: exportLaboratoryData_def rows)
  show ?thesis
    by (rule exI [of _ ?c], rule exI [of _ r']) (simp add: ex export_row_def)
qed

theorem exportLaboratoryData_columns_witness:
  "getCurrentWavelengthData gold_export_lab =
     Inr \<lparr>wd_wavelength = Num 438, wd_frequency = Num (6849 * 10 ^ 11),
          wd_energy = Num (2833 / 1000)\<rparr> \<and>
   experimentData gold_export_lab \<noteq> [] \<and>
   (\<exists>c r'. exportLaboratoryData gold_export_lab half_rng = Inr (Some c, r') \<and>
      length (csv_rows c) = 1 \<and>
      csv_Material (csv_rows c ! 0) = ''Cesium'' \<and>
      csv_Work_Function_eV (csv_rows c ! 0) = Num (51 / 10) \<and>
      csv_Stopping_Potential_V (csv_rows c ! 0) = Num 0 \<and>
      csv_Current_microA (csv_rows c ! 0) = Num 15)"
proof -
  have wd: "getCurrentWavelengthData gold_export_lab =
     Inr \<lparr>wd_wavelength = Num 438, wd_frequency = Num (6849 * 10 ^ 11),
          wd_energy = Num (2833 / 1000)\<rparr>"
    by (simp add: gold_export_lab_def getCurrentWavelengthData_def filters_def initial_lab_def
        with_material_def)
  have data: "experimentData gold_export_lab \<noteq> []"
    by (simp add: gold_export_lab_def)
  have mat: "mat_workFunction (currentMaterial (state gold_export_lab)) = Num (51 / 10)"
    by (simp add: gold_export_lab_def with_material_def materials_def)
  have d: "experimentData gold_export_lab =
          [\<lparr>m_voltage = Num 0, m_current = Num 15, m_standardError = Num 0,
            m_measurements = 1000, m_material = ''Cesium'', m_wavelength = Num 438,
            m_filter = ''blue'', m_timestamp = 0\<rparr>]"
    by (simp add: gold_export_lab_def)
  from exportLaboratoryData_columns [OF wd data, of half_rng] obtain c r' where
    "exportLaboratoryData gold_export_lab half_rng = Inr (Some c, r')"
    "length (csv_rows c) = length (experimentData gold_export_lab)"
    "\<forall>i<length (experimentData gold_export_lab).
              csv_Work_Function_eV (csv_rows c ! i) =
                mat_workFunction (currentMaterial (state gold_export_lab)) \<and>
              csv_Stopping_Potential_V (csv_rows c ! i) =
                Math_max (Num 0)
                  (js_sub (Num (2833 / 1000))
                     (mat_workFunction (currentMaterial (state gold_export_lab)))) \<and>
              csv_Material (csv_rows c ! i) = m_material (experimentData gold_export_lab ! i) \<and>
              csv_Current_microA (csv_rows c ! i) = m_current (experimentData gold_export_lab ! i)"
    by auto
  then have "exportLaboratoryData gold_export_lab half_rng = Inr (Some c, r') \<and>
      length (csv_rows c) = 1 \<and>
      csv_Material (csv_rows c ! 0) = ''Cesium'' \<and>
      csv_Work_Function_eV (csv_rows c ! 0) = Num (51 / 10) \<and>
      csv_Stopping_Potential_V (csv_rows c ! 0) = Num 0 \<and>
      csv_Current_microA (csv_rows c ! 0) = Num 15"
    by (simp add: d mat)
  then show ?thesis using wd data by blast
qed

section \<open>The sampler on a finite current\<close>

lemma simulate_measurements_finite:
  "simulate_measurements k (Num c) r =
     (map Num (spec_samples c r k), \<lambda>n. r (n + k))"
proof (induction k arbitrary: r)
  case 0
  then show ?case by (simp add: spec_samples_def)
next
  case (Suc k)
  have up: "[0..<Suc k] = 0 # map Suc [0..<k]"
    by (simp add: upt_conv_Cons map_Suc_upt del: upt_Suc)
  show ?case
    by (simp add: Suc.IH Math_random_def spec_samples_def up Let_def comp_def algebra_simps
        del: upt_Suc)
qed

lemma foldl_js_add_Num:
  "foldl (\<lambda>a b. js_add a b) (Num a) (map Num xs) = Num (a + sum_list xs)"
  by (induction xs arbitrary: a) (simp_all add: algebra_simps)

lemma foldl_squares_Num:
  "foldl (\<lambda>a b. js_add a (Math_pow2 (js_sub b (Num m)))) (Num a) (map Num xs) =
     Num (a + (\<Sum>x\<leftarrow>xs. (x - m) ^ 2))"
  by (induction xs arbitrary: a) (simp_all add: algebra_simps)

lemma spec_variance_nonneg: "0 \<le> spec_variance xs"
proof -
  have "0 \<le> (\<Sum>x\<leftarrow>xs. (x - spec_mean xs) ^ 2)"
    by (rule sum_list_nonneg) auto
  then show ?thesis by (simp add: spec_variance_def)
qed

lemma measurement_statistics_finite:
  assumes "length xs = n" "0 < n"
  shows "measurement_statistics (map Num xs) n =
           \<lparr>st_mean = Num (spec_mean xs), st_variance = Num (spec_variance xs),
            st_standardDeviation = Num (sqrt (spec_variance xs)),
            st_standardError = Num (sqrt (spec_variance xs) / sqrt (real n))\<rparr>"
proof -
  have v: "\<not> spec_variance xs < 0" using spec_variance_nonneg [of xs] by simp
  have m: "sum_list xs / real n = spec_mean xs" using assms by (simp add: spec_mean_def)
  have "sum_list (map (\<lambda>x. (x - spec_mean xs)\<^sup>2) xs) / real n = spec_variance xs"
    using assms by (simp add: spec_variance_def)
  then show ?thesis
    using assms v
    by (simp add: measurement_statistics_def foldl_js_add_Num foldl_squares_Num Let_def m)
qed

lemma sum_list_bounds:
  assumes "\<forall>x\<in>set xs. lo \<le> x \<and> x \<le> (hi::real)"
  shows "real (length xs) * lo \<le> sum_list xs \<and> sum_list xs \<le> real (length xs) * hi"
  using assms by (induction xs) (auto simp: algebra_simps)

lemma spec_mean_within:
  assumes r: "\<forall>i. 0 \<le> r i \<and> r i < 1" and c: "0 \<le> c" and n: "0 < n"
  shows "\<bar>spec_mean (spec_samples c r n) - c\<bar> \<le> c * (5 / 10000)"
proof -
  let ?xs = "spec_samples c r n"
  have len: "length ?xs = n" by (simp add: spec_samples_def)
  have each: "\<forall>x\<in>set ?xs. c - c * (5 / 10000) \<le> x \<and> x \<le> c + c * (5 / 10000)"
  proof
    fix x assume "x \<in> set ?xs"
    then obtain i where x: "x = c + (r i - 5 / 10) * (1 / 1000) * c"
      by (auto simp: spec_samples_def)
    define t where "t = (r i - 5 / 10) * c"
    have "- (5 / 10) \<le> r i - 5 / 10" "r i - 5 / 10 \<le> 5 / 10" using r [rule_format, of i] by auto
    then have "- (5 / 10) * c \<le> t" "t \<le> 5 / 10 * c"
      unfolding t_def using c by (rule_tac [!] mult_right_mono) assumption+
    moreover have "x = c + t / 1000" by (simp add: x t_def)
    ultimately show "c - c * (5 / 10000) \<le> x \<and> x \<le> c + c * (5 / 10000)"
      by simp
  qed
  from sum_list_bounds [OF each] len
  have "real n * (c - c * (5 / 10000)) \<le> sum_list ?xs"
    "sum_list ?xs \<le> real n * (c + c * (5 / 10000))" by auto
  then have "c - c * (5 / 10000) \<le> sum_list ?xs / real n"
    "sum_list ?xs / real n \<le> c + c * (5 / 10000)"
    using n by (simp_all add: field_simps)
  then have "\<bar>sum_list ?xs / real n - c\<bar> \<le> c * (5 / 10000)"
    by linarith
  then show ?thesis by (simp only: spec_mean_def len)
qed

lemma experimentData_calculatePlanckConstant [simp]:
  "experimentData (calculatePlanckConstant l) = experimentData l"
  by (simp add: calculatePlanckConstant_def Let_def)

lemma experimentData_updateFrequencyData [simp]:
  "experimentData (updateFrequencyData l ph) = experimentData l"
  by (simp add: updateFrequencyData_def split: option.splits)

lemma calculatePhysics_rng:
  assumes "calculatePhysics l r = Inr (ph, r1)"
  shows "r1 = r \<or> r1 = (\<lambda>n. r (Suc n))"
  using assms
  by (auto simp: calculatePhysics_def Math_random_def Let_def
      split: sum.splits prod.splits if_splits)

lemma calculatePhysics_rng_ok:
  assumes "calculatePhysics l r = Inr (ph, r1)" "rng_ok r"
  shows "rng_ok r1"
  using calculatePhysics_rng [OF assms(1)] assms(2) by (auto simp: rng_ok_def)

lemma takePrecisionMeasurement_active:
  assumes active: "isExperimentActive (state l)"
    and ph: "calculatePhysics l r = Inr (ph, r1)"
  shows "\<exists>l'. takePrecisionMeasurement l now r =
                Inr (l', snd (simulate_measurements 1000 (ph_current ph) r1)) \<and>
              experimentData l' = experimentData l @
                [\<lparr>m_voltage = voltage (state l),
                  m_current = st_mean (measurement_statistics
                     (fst (simulate_measurements 1000 (ph_current ph) r1)) 1000),
                  m_standardError = st_standardError (measurement_statistics
                     (fst (simulate_measurements 1000 (ph_current ph) r1)) 1000),
                  m_measurements = 1000,
                  m_material = mat_name (currentMaterial (state l)),
                  m_wavelength = ph_wavelength ph,
                  m_filter = currentFilter (state l),
                  m_timestamp = now\<rparr>]"
  using active
  by (simp add: takePrecisionMeasurement_def ph Let_def split: prod.splits)

lemma active_lab_physics:
  "calculatePhysics active_lab half_rng = Inr (blue_physics, half_rng)"
  by (simp add: blue_physics_eq active_lab_def calculatePhysics_def getCurrentWavelengthData_def
      filters_def initial_lab_def materials_def half_rng_def Math_random_def Let_def
      planckConstant_def speedOfLight_def)

text \<open>
  C5. When the experiment is active and the current \<open>c\<close> of the physics result is finite,
  the 1000 samples are \<open>c + (u - 0.5) 0.001 c\<close>, each for its own draw \<open>u\<close> of the
  random source; the recorded current is their mean; the variance divides the sum of the
  squared deviations by 1000, the standard deviation is its square root, and the recorded
  standard error is the standard deviation over \<open>sqrt 1000\<close>. With draws in \<open>[0, 1)\<close>
  and \<open>c \<ge> 0\<close> the mean is within 0.05 percent of \<open>c\<close>.
\<close>

theorem takePrecisionMeasurement_statistics:
  assumes active: "isExperimentActive (state l)"
    and ph: "calculatePhysics l r = Inr (ph, r1)"
    and c: "ph_current ph = Num c"
    and rng: "rng_ok r"
  shows "\<exists>l' r2 m. takePrecisionMeasurement l now r = Inr (l', r2) \<and>
           experimentData l' = experimentData l @ [m] \<and>
           fst (simulate_measurements 1000 (ph_current ph) r1) =
             map Num (spec_samples c r1 1000) \<and>
           measurement_statistics (map Num (spec_samples c r1 1000)) 1000 =
             \<lparr>st_mean = Num (spec_mean (spec_samples c r1 1000)),
              st_variance = Num (spec_variance (spec_samples c r1 1000)),
              st_standardDeviation = Num (sqrt (spec_variance (spec_samples c r1 1000))),
              st_standardError =
                Num (sqrt (spec_variance (spec_samples c r1 1000)) / sqrt 1000)\<rparr> \<and>
           m_measurements m = 1000 \<and>
           m_current m = Num (spec_mean (spec_samples c r1 1000)) \<and>
           m_standardError m =
             Num (sqrt (spec_variance (spec_samples c r1 1000)) / sqrt 1000) \<and>
           (0 \<le> c \<longrightarrow> \<bar>spec_mean (spec_samples c r1 1000) - c\<bar> \<le> c * (5 / 10000))"
proof -
  let ?S = "spec_samples c r1 1000"
  have sim: "fst (simulate_measurements 1000 (ph_current ph) r1) = map Num ?S"
    by (simp add: c simulate_measurements_finite)
  have len: "length ?S = 1000" by (simp add: spec_samples_def)
  have stats: "measurement_statistics (map Num ?S) 1000 =
             \<lparr>st_mean = Num (spec_mean ?S), st_variance = Num (spec_variance ?S),
              st_standardDeviation = Num (sqrt (spec_variance ?S)),
              st_standardError = Num (sqrt (spec_variance ?S) / sqrt 1000)\<rparr>"
    using measurement_statistics_finite [OF len] by simp
  have r1: "\<forall>i. 0 \<le> r1 i \<and> r1 i < 1"
    using calculatePhysics_rng_ok [OF ph rng] by (simp add: rng_ok_def)
  have bound: "0 \<le> c \<longrightarrow> \<bar>spec_mean ?S - c\<bar> \<le> c * (5 / 10000)"
    using spec_mean_within [OF r1, of c 1000] by simp
  obtain l' where l': "takePrecisionMeasurement l now r =
                Inr (l', snd (simulate_measurements 1000 (ph_current ph) r1))"
    and ed: "experimentData l' = experimentData l @
                [\<lparr>m_voltage = voltage (state l),
                  m_current = st_mean (measurement_statistics
                     (fst (simulate_measurements 1000 (ph_current ph) r1)) 1000),
                  m_standardError = st_standardError (measurement_statistics
                     (fst (simulate_measurements 1000 (ph_current ph) r1)) 1000),
                  m_measurements = 1000,
                  m_material = mat_name (currentMaterial (state l)),
                  m_wavelength = ph_wavelength ph,
                  m_filter = currentFilter (state l),
                  m_timestamp = now\<rparr>]"
    using takePrecisionMeasurement_active [OF active ph] by blast
  let ?m = "\<lparr>m_voltage = voltage (state l),
                  m_current = Num (spec_mean ?S),
                  m_standardError = Num (sqrt (spec_variance ?S) / sqrt 1000),
                  m_measurements = 1000,
                  m_material = mat_name (currentMaterial (state l)),
                  m_wavelength = ph_wavelength ph,
                  m_filter = currentFilter (state l),
                  m_timestamp = now\<rparr>"
  have ed': "experimentData l' = experimentData l @ [?m]"
    unfolding ed sim stats by simp
  show ?thesis
    apply (rule exI [of _ l'])
    apply (rule exI [of _ "snd (simulate_measurements 1000 (ph_current ph) r1)"])
    apply (rule exI [of _ ?m])
    using l' ed' sim stats bound by simp
qed

theorem takePrecisionMeasurement_statistics_witness:
  "isExperimentActive (state active_lab) \<and>
   calculatePhysics active_lab half_rng = Inr (blue_physics, half_rng) \<and>
   ph_current blue_physics = Num 15 \<and> rng_ok half_rng \<and>
   (\<exists>l' r2 m. takePrecisionMeasurement active_lab 0 half_rng = Inr (l', r2) \<and>
      experimentData l' = experimentData active_lab @ [m] \<and>
      m_measurements m = 1000 \<and>
      m_current m = Num (spec_mean (spec_samples 15 half_rng 1000)) \<and>
      m_standardError m =
        Num (sqrt (spec_variance (spec_samples 15 half_rng 1000)) / sqrt 1000) \<and>
      \<bar>spec_mean (spec_samples 15 half_rng 1000) - 15\<bar> \<le> 15 * (5 / 10000))"
proof -
  have a: "isExperimentActive (state active_lab)"
    by (simp add: active_lab_def)
  have c: "ph_current blue_physics = Num 15" by (simp add: blue_physics_eq)
  have r: "rng_ok half_rng" by (simp add: rng_ok_def half_rng_def)
  show ?thesis
    using a c r active_lab_physics takePrecisionMeasurement_statistics [OF a active_lab_physics c r, of 0]
    by auto
qed

text \<open>
  C8, as the code has it. \<open>takePrecisionMeasurement\<close> has no sample count parameter and
  never rejects a call: whatever arguments are passed, it fails only when
  \<open>calculatePhysics\<close> throws; when the experiment is not active it changes nothing; and when
  it is active it records one measurement computed from exactly 1000 samples. So every
  recorded measurement has a sample count greater than 0.
\<close>

theorem takePrecisionMeasurement_sample_count:
  "(\<forall>e. call_takePrecisionMeasurement args l now r = Inl e \<longrightarrow>
        isExperimentActive (state l) \<and> calculatePhysics l r = Inl e) \<and>
   (\<forall>l' r'. call_takePrecisionMeasurement args l now r = Inr (l', r') \<longrightarrow>
      (if isExperimentActive (state l)
       then \<exists>m. experimentData l' = experimentData l @ [m] \<and> m_measurements m = 1000
       else l' = l) \<and>
      ((\<forall>m\<in>set (experimentData l). 0 < m_measurements m) \<longrightarrow>
       (\<forall>m\<in>set (experimentData l'). 0 < m_measurements m)))"
proof (cases "isExperimentActive (state l)")
  case False
  then show ?thesis
    by (simp add: call_takePrecisionMeasurement_def takePrecisionMeasurement_def)
next
  case True
  show ?thesis
  proof (cases "calculatePhysics l r")
    case (Inl e)
    then show ?thesis using True
      by (simp add: call_takePrecisionMeasurement_def takePrecisionMeasurement_def)
  next
    case (Inr p)
    obtain ph r1 where p: "p = (ph, r1)" by (cases p)
    from takePrecisionMeasurement_active [OF True Inr [unfolded p], of now]
    obtain l0 m where l0: "takePrecisionMeasurement l now r =
                Inr (l0, snd (simulate_measurements 1000 (ph_current ph) r1))"
      and ed: "experimentData l0 = experimentData l @ [m]" and m: "m_measurements m = 1000"
      by force
    show ?thesis
      using True l0 ed m by (auto simp: call_takePrecisionMeasurement_def)
  qed
qed

theorem takePrecisionMeasurement_sample_count_witness:
  "isExperimentActive (state active_lab) \<and>
   (\<exists>l' r' m. call_takePrecisionMeasurement [Num 0] active_lab 0 half_rng = Inr (l', r') \<and>
      experimentData l' = experimentData active_lab @ [m] \<and> m_measurements m = 1000)"
proof -
  have a: "isExperimentActive (state active_lab)"
    by (simp add: active_lab_def)
  obtain l' where l': "call_takePrecisionMeasurement [Num 0] active_lab 0 half_rng =
      Inr (l', snd (simulate_measurements 1000 (ph_current blue_physics) half_rng))"
    using takePrecisionMeasurement_active [OF a active_lab_physics, of 0]
    by (auto simp: call_takePrecisionMeasurement_def)
  from takePrecisionMeasurement_sample_count [of "[Num 0]" active_lab 0 half_rng] l' a
  have "\<exists>m. experimentData l' = experimentData active_lab @ [m] \<and> m_measurements m = 1000"
    by simp
  then show ?thesis using a l' by blast
qed

text \<open>
  C8, as the claim states it, fails for a call that passes the sample count 0: the call is
  not rejected, and the measurement it records was computed from 1000 samples.
\<close>

theorem takePrecisionMeasurement_sample_count_counterexample:
  "\<not> isl (call_takePrecisionMeasurement [Num 0] active_lab 0 half_rng) \<and>
   length (experimentData
     (fst (projr (call_takePrecisionMeasurement [Num 0] active_lab 0 half_rng)))) =
     Suc (length (experimentData active_lab)) \<and>
   m_measurements (last (experimentData
     (fst (projr (call_takePrecisionMeasurement [Num 0] active_lab 0 half_rng))))) = 1000"
proof -
  have a: "isExperimentActive (state active_lab)"
    by (simp add: active_lab_def)
  from takePrecisionMeasurement_active [OF a active_lab_physics, of 0]
  obtain l' m where l': "call_takePrecisionMeasurement [Num 0] active_lab 0 half_rng =
      Inr (l', snd (simulate_measurements 1000 (ph_current blue_physics) half_rng))"
    and ed: "experimentData l' = experimentData active_lab @ [m]"
    and m: "m_measurements m = 1000"
    by (force simp: call_takePrecisionMeasurement_def)
  show ?thesis by (simp add: l' ed m)
qed

end
